theory Spec2Isabelle
  imports Complex_Main
begin

section \<open>JavaScript values\<close>

text \<open>
  The client (src/frontend.js) is a React component. Its handlers move JavaScript values
  between form state, request bodies, parsed responses and browser storage, so the model
  starts with those values. A finite Number is represented by its exact value; the other
  Numbers are kept apart because truthiness, string conversion and JSON treat them
  differently.
\<close>

datatype number = Finite rat | NaN | PosInfinity | NegInfinity

datatype jsval =
    JUndefined
  | JNull
  | JBool bool
  | JNum number
  | JStr string
  | JArr "jsval list"
  | JObj "(string \<times> jsval) list"

text \<open>
  What the browser supplies and the component only calls: the global functions
  \<^verbatim>\<open>parseFloat\<close> and \<^verbatim>\<open>parseInt\<close>, the conversion of a finite Number to a
  string, the clock (\<^verbatim>\<open>new Date().toISOString()\<close>) and the message of the TypeError
  that reading a property of \<^verbatim>\<open>null\<close> or \<^verbatim>\<open>undefined\<close> throws.
\<close>

record host =
  parseFloat :: "string \<Rightarrow> number"
  parseInt :: "string \<Rightarrow> number"
  numberToString :: "rat \<Rightarrow> string"
  nowISO :: string
  nullPropertyMessage :: "string \<Rightarrow> string"

text \<open>Truthiness, as \<^verbatim>\<open>!x\<close>, \<^verbatim>\<open>x && y\<close> and \<^verbatim>\<open>x || y\<close> test it.\<close>

fun truthy :: "jsval \<Rightarrow> bool" where
  "truthy JUndefined = False"
| "truthy JNull = False"
| "truthy (JBool b) = b"
| "truthy (JNum (Finite r)) = (r \<noteq> 0)"
| "truthy (JNum NaN) = False"
| "truthy (JNum PosInfinity) = True"
| "truthy (JNum NegInfinity) = True"
| "truthy (JStr s) = (s \<noteq> [])"
| "truthy (JArr xs) = True"
| "truthy (JObj kvs) = True"

text \<open>\<^verbatim>\<open>a || b\<close>\<close>

definition js_or :: "jsval \<Rightarrow> jsval \<Rightarrow> jsval" where
  "js_or a b = (if truthy a then a else b)"

fun join_comma :: "string list \<Rightarrow> string" where
  "join_comma [] = []"
| "join_comma [x] = x"
| "join_comma (x # y # ys) = x @ '','' @ join_comma (y # ys)"

text \<open>
  String conversion, as a template literal, \<^verbatim>\<open>new Error(x)\<close> and
  \<^verbatim>\<open>localStorage.setItem\<close> apply it. An array is joined with commas, its
  \<^verbatim>\<open>null\<close> and \<^verbatim>\<open>undefined\<close> elements giving the empty string; a plain object
  gives \<^verbatim>\<open>[object Object]\<close>. (The objects here are parsed from JSON or built by the
  component; one whose own property \<^verbatim>\<open>toString\<close> hides the inherited method is not
  covered.)
\<close>

fun toString :: "host \<Rightarrow> jsval \<Rightarrow> string" where
  "toString h JUndefined = ''undefined''"
| "toString h JNull = ''null''"
| "toString h (JBool b) = (if b then ''true'' else ''false'')"
| "toString h (JNum (Finite r)) = numberToString h r"
| "toString h (JNum NaN) = ''NaN''"
| "toString h (JNum PosInfinity) = ''Infinity''"
| "toString h (JNum NegInfinity) = ''-Infinity''"
| "toString h (JStr s) = s"
| "toString h (JArr xs) =
     join_comma (map (\<lambda>x. if x = JUndefined \<or> x = JNull then [] else toString h x) xs)"
| "toString h (JObj kvs) = ''[object Object]''"

text \<open>
  Reading a property whose name no prototype defines and that is neither an array index
  nor \<^verbatim>\<open>length\<close> (the component reads \<^verbatim>\<open>detail\<close>, \<^verbatim>\<open>access_token\<close> and the fields
  of the records it shows). On \<^verbatim>\<open>null\<close> and \<^verbatim>\<open>undefined\<close> the read throws; on an
  object it gives the property or \<^verbatim>\<open>undefined\<close>; on any other value it gives
  \<^verbatim>\<open>undefined\<close>. A thrown Error is \<open>Inl\<close> of its message.
\<close>

fun get_prop :: "host \<Rightarrow> string \<Rightarrow> jsval \<Rightarrow> string + jsval" where
  "get_prop h k JUndefined = Inl (nullPropertyMessage h k)"
| "get_prop h k JNull = Inl (nullPropertyMessage h k)"
| "get_prop h k (JObj kvs) = Inr (case map_of kvs k of None \<Rightarrow> JUndefined | Some v \<Rightarrow> v)"
| "get_prop h k v = Inr JUndefined"

text \<open>
  Setting a property in an object literal: a name already present keeps its position and
  takes the new value, a new name goes to the end. This is how the spread
  \<^verbatim>\<open>{...feePayment, amount: ..., student_id: ..., year_id: ...}\<close> overrides fields.
\<close>

fun set_prop :: "string \<Rightarrow> jsval \<Rightarrow> (string \<times> jsval) list \<Rightarrow> (string \<times> jsval) list" where
  "set_prop k v [] = [(k, v)]"
| "set_prop k v ((k', v') # kvs) =
     (if k = k' then (k, v) # kvs else (k', v') # set_prop k v kvs)"

text \<open>
  A string that the component hands to the browser: either characters it has, or the
  text \<^verbatim>\<open>JSON.stringify(v)\<close>, kept as the value \<open>v\<close> it was made from.
\<close>

datatype js_text = Plain string | Json jsval

section \<open>Requests and responses\<close>

datatype body = Text js_text | FormData "(string \<times> string) list" | Raw jsval

record request =
  url :: string
  http_method :: "string option"
  headers :: "(string \<times> string) list"
  req_body :: "body option"

text \<open>
  A response as the component reads it: the status, and what \<^verbatim>\<open>response.json()\<close>
  settles with (\<open>Inl\<close> the message of the error it rejects with, \<open>Inr\<close> the parsed
  body). \<^verbatim>\<open>fetch\<close> itself either rejects (a transport failure) or resolves with a
  response of any status.
\<close>

record response =
  status :: nat
  json :: "string + jsval"

datatype fetch_result = Rejected string | Resolved response

definition ok :: "response \<Rightarrow> bool" where
  "ok r = (200 \<le> status r \<and> status r \<le> 299)"

definition API_BASE_URL :: string where
  "API_BASE_URL = ''http://localhost:8000''"

section \<open>Component state\<close>

record loginForm =
  login_username :: string
  login_password :: string

record feePaymentForm =
  fp_student_id :: string
  fp_amount :: string
  fp_transaction_date :: string
  fp_payment_method :: string
  fp_reference_details :: string
  fp_description :: string
  fp_year_id :: string

record newUserForm =
  nu_username :: string
  nu_password :: string
  nu_full_name :: string
  nu_role :: string

text \<open>
  The \<^verbatim>\<open>useState\<close> cells of \<^verbatim>\<open>SchoolFinanceApp\<close>, and the browser's
  \<^verbatim>\<open>localStorage\<close>, which the handlers write beside them (a write to it is taken
  to succeed).
\<close>

record app_state =
  token :: jsval
  user :: jsval
  activeTab :: string
  loading :: bool
  error :: string
  success :: string
  loginData :: loginForm
  feePayment :: feePaymentForm
  studentSearchId :: string
  studentDetails :: jsval
  feeSummary :: jsval
  summaryStudentId :: string
  summaryYearId :: string
  transactionHistory :: jsval
  historyStartDate :: string
  historyEndDate :: string
  newUser :: newUserForm
  localStorage :: "string \<rightharpoonup> js_text"

text \<open>\<^verbatim>\<open>new Date().toISOString().split('T')[0]\<close>\<close>

definition today :: "host \<Rightarrow> string" where
  "today h = takeWhile (\<lambda>c. c \<noteq> CHR ''T'') (nowISO h)"

definition initialFeePayment :: "host \<Rightarrow> feePaymentForm" where
  "initialFeePayment h =
     \<lparr>fp_student_id = '''', fp_amount = '''', fp_transaction_date = today h,
      fp_payment_method = ''Cash'', fp_reference_details = '''', fp_description = '''',
      fp_year_id = ''''\<rparr>"

definition initialNewUser :: newUserForm where
  "initialNewUser =
     \<lparr>nu_username = '''', nu_password = '''', nu_full_name = '''',
      nu_role = ''Teaching Staff''\<rparr>"

section \<open>Calling the backend\<close>

text \<open>The second argument of \<^verbatim>\<open>apiCall\<close>; a field the caller leaves out is \<open>None\<close>.\<close>

record options =
  opt_method :: "string option"
  opt_body :: "jsval option"

definition no_options :: options where
  "no_options = \<lparr>opt_method = None, opt_body = None\<rparr>"

fun is_string :: "jsval \<Rightarrow> bool" where
  "is_string (JStr t) = True"
| "is_string v = False"

text \<open>
  Lines 57 to 68 of \<^verbatim>\<open>apiCall\<close>: the request that goes to \<^verbatim>\<open>fetch\<close>. The
  Authorization header is spread in when the token is truthy; a truthy body that is not a
  string is replaced by its JSON text.
\<close>

definition apiCall_request :: "host \<Rightarrow> jsval \<Rightarrow> string \<Rightarrow> options \<Rightarrow> request" where
  "apiCall_request h tok endpoint opts =
     \<lparr>url = API_BASE_URL @ endpoint,
      http_method = opt_method opts,
      headers = (''Content-Type'', ''application/json'') #
        (if truthy tok then [(''Authorization'', ''Bearer '' @ toString h tok)] else []),
      req_body = (case opt_body opts of
                    None \<Rightarrow> None
                  | Some b \<Rightarrow>
                      Some (if truthy b \<and> \<not> is_string b then Text (Json b) else Raw b))\<rparr>"

text \<open>
  Lines 70 to 77: what \<^verbatim>\<open>apiCall\<close> returns (\<open>Inr\<close>) or throws (\<open>Inl\<close> the
  message) once \<^verbatim>\<open>fetch\<close> has settled.
\<close>

definition apiCall_result :: "host \<Rightarrow> fetch_result \<Rightarrow> string + jsval" where
  "apiCall_result h fr =
     (case fr of
        Rejected m \<Rightarrow> Inl m
      | Resolved r \<Rightarrow>
          (case json r of
             Inl m \<Rightarrow> Inl m
           | Inr data \<Rightarrow>
               if \<not> ok r then
                 (case get_prop h ''detail'' data of
                    Inl m \<Rightarrow> Inl m
                  | Inr d \<Rightarrow> Inl (toString h (js_or d (JStr ''An error occurred''))))
               else Inr data))"

definition apiCall ::
  "host \<Rightarrow> jsval \<Rightarrow> (request \<Rightarrow> fetch_result) \<Rightarrow> string \<Rightarrow> options
     \<Rightarrow> request \<times> (string + jsval)" where
  "apiCall h tok fetch endpoint opts =
     (let req = apiCall_request h tok endpoint opts in (req, apiCall_result h (fetch req)))"

section \<open>The handlers\<close>

text \<open>
  A handler runs up to its \<^verbatim>\<open>await\<close>, the component renders, and the handler
  resumes when \<^verbatim>\<open>fetch\<close> settles. A run records the requests sent, the state
  rendered while the request is in flight (\<open>None\<close> when the handler returns before
  sending one) and the state once the handler has finished. The handler reads
  \<^verbatim>\<open>token\<close> and the forms from the render it was created in, which is the state it
  is called on; no other event changes the state while the request is in flight.
\<close>

record run =
  sent :: "request list"
  awaiting :: "app_state option"
  final :: app_state

definition login_request :: "loginForm \<Rightarrow> request" where
  "login_request ld =
     \<lparr>url = API_BASE_URL @ ''/login'',
      http_method = Some ''POST'',
      headers = [],
      req_body = Some (FormData [(''username'', login_username ld),
                                 (''password'', login_password ld)])\<rparr>"

definition handleLogin :: "host \<Rightarrow> (request \<Rightarrow> fetch_result) \<Rightarrow> app_state \<Rightarrow> run" where
  "handleLogin h fetch s =
     (let s1 = s\<lparr>loading := True, error := []\<rparr>;
          req = login_request (loginData s);
          userInfo = JObj [(''username'', JStr (login_username (loginData s)))];
          caught = (\<lambda>m. s1\<lparr>error := m\<rparr>);
          s2 = (case fetch req of
                  Rejected m \<Rightarrow> caught m
                | Resolved r \<Rightarrow>
                    (case json r of
                       Inl m \<Rightarrow> caught m
                     | Inr data \<Rightarrow>
                         if \<not> ok r then
                           (case get_prop h ''detail'' data of
                              Inl m \<Rightarrow> caught m
                            | Inr d \<Rightarrow> caught (toString h (js_or d (JStr ''Login failed''))))
                         else
                           (case get_prop h ''access_token'' data of
                              Inl m \<Rightarrow> caught m
                            | Inr t \<Rightarrow>
                                s1\<lparr>token := t,
                                   user := userInfo,
                                   success := ''Login successful!'',
                                   localStorage :=
                                     (localStorage s1)
                                       (''token'' \<mapsto> Plain (toString h t),
                                        ''user'' \<mapsto> Json userInfo)\<rparr>)))
      in \<lparr>sent = [req], awaiting = Some s1, final = s2\<lparr>loading := False\<rparr>\<rparr>)"

text \<open>The properties of the \<^verbatim>\<open>feePayment\<close> state object, in the order of its literal.\<close>

definition feePayment_props :: "feePaymentForm \<Rightarrow> (string \<times> jsval) list" where
  "feePayment_props fp =
     [(''student_id'', JStr (fp_student_id fp)),
      (''amount'', JStr (fp_amount fp)),
      (''transaction_date'', JStr (fp_transaction_date fp)),
      (''payment_method'', JStr (fp_payment_method fp)),
      (''reference_details'', JStr (fp_reference_details fp)),
      (''description'', JStr (fp_description fp)),
      (''year_id'', JStr (fp_year_id fp))]"

text \<open>Lines 148 to 153: the body handed to \<^verbatim>\<open>apiCall\<close>.\<close>

definition feePayment_body :: "host \<Rightarrow> feePaymentForm \<Rightarrow> jsval" where
  "feePayment_body h fp =
     JObj (set_prop ''year_id'' (JNum (parseInt h (fp_year_id fp)))
            (set_prop ''student_id'' (JNum (parseInt h (fp_student_id fp)))
              (set_prop ''amount'' (JNum (parseFloat h (fp_amount fp)))
                (feePayment_props fp))))"

definition handleFeePayment ::
  "host \<Rightarrow> (request \<Rightarrow> fetch_result) \<Rightarrow> app_state \<Rightarrow> run" where
  "handleFeePayment h fetch s =
     (let s1 = s\<lparr>loading := True, error := [], success := []\<rparr>;
          (req, res) = apiCall h (token s) fetch ''/transactions/fee-payment''
                         \<lparr>opt_method = Some ''POST'',
                          opt_body = Some (feePayment_body h (feePayment s))\<rparr>;
          s2 = (case res of
                  Inr data \<Rightarrow>
                    s1\<lparr>success := ''Fee payment recorded successfully!'',
                       feePayment := initialFeePayment h\<rparr>
                | Inl m \<Rightarrow> s1\<lparr>error := m\<rparr>)
      in \<lparr>sent = [req], awaiting = Some s1, final = s2\<lparr>loading := False\<rparr>\<rparr>)"

definition fetchStudentDetails ::
  "host \<Rightarrow> (request \<Rightarrow> fetch_result) \<Rightarrow> app_state \<Rightarrow> run" where
  "fetchStudentDetails h fetch s =
     (if studentSearchId s = [] then \<lparr>sent = [], awaiting = None, final = s\<rparr>
      else
        let s1 = s\<lparr>loading := True, error := [], studentDetails := JNull\<rparr>;
            (req, res) = apiCall h (token s) fetch
                           (''/students/'' @ studentSearchId s @ ''/details'') no_options;
            s2 = (case res of
                    Inr data \<Rightarrow> s1\<lparr>studentDetails := data\<rparr>
                  | Inl m \<Rightarrow> s1\<lparr>error := m\<rparr>)
        in \<lparr>sent = [req], awaiting = Some s1, final = s2\<lparr>loading := False\<rparr>\<rparr>)"

definition fetchFeeSummary ::
  "host \<Rightarrow> (request \<Rightarrow> fetch_result) \<Rightarrow> app_state \<Rightarrow> run" where
  "fetchFeeSummary h fetch s =
     (if summaryStudentId s = [] \<or> summaryYearId s = []
      then \<lparr>sent = [], awaiting = None, final = s\<rparr>
      else
        let s1 = s\<lparr>loading := True, error := [], feeSummary := JNull\<rparr>;
            (req, res) = apiCall h (token s) fetch
                           (''/students/'' @ summaryStudentId s @ ''/fee-summary/''
                              @ summaryYearId s) no_options;
            s2 = (case res of
                    Inr data \<Rightarrow> s1\<lparr>feeSummary := data\<rparr>
                  | Inl m \<Rightarrow> s1\<lparr>error := m\<rparr>)
        in \<lparr>sent = [req], awaiting = Some s1, final = s2\<lparr>loading := False\<rparr>\<rparr>)"

definition fetchTransactionHistory ::
  "host \<Rightarrow> (request \<Rightarrow> fetch_result) \<Rightarrow> app_state \<Rightarrow> run" where
  "fetchTransactionHistory h fetch s =
     (let s1 = s\<lparr>loading := True, error := []\<rparr>;
          (req, res) = apiCall h (token s) fetch
                         (''/transactions/history?start_date='' @ historyStartDate s
                            @ ''&end_date='' @ historyEndDate s) no_options;
          s2 = (case res of
                  Inr data \<Rightarrow> s1\<lparr>transactionHistory := data\<rparr>
                | Inl m \<Rightarrow> s1\<lparr>error := m\<rparr>)
      in \<lparr>sent = [req], awaiting = Some s1, final = s2\<lparr>loading := False\<rparr>\<rparr>)"

definition newUser_body :: "newUserForm \<Rightarrow> jsval" where
  "newUser_body nu =
     JObj [(''username'', JStr (nu_username nu)),
           (''password'', JStr (nu_password nu)),
           (''full_name'', JStr (nu_full_name nu)),
           (''role'', JStr (nu_role nu))]"

definition createUser :: "host \<Rightarrow> (request \<Rightarrow> fetch_result) \<Rightarrow> app_state \<Rightarrow> run" where
  "createUser h fetch s =
     (let s1 = s\<lparr>loading := True, error := [], success := []\<rparr>;
          (req, res) = apiCall h (token s) fetch ''/signup''
                         \<lparr>opt_method = Some ''POST'',
                          opt_body = Some (newUser_body (newUser s))\<rparr>;
          s2 = (case res of
                  Inr data \<Rightarrow>
                    s1\<lparr>success := ''User created successfully!'',
                       newUser := initialNewUser\<rparr>
                | Inl m \<Rightarrow> s1\<lparr>error := m\<rparr>)
      in \<lparr>sent = [req], awaiting = Some s1, final = s2\<lparr>loading := False\<rparr>\<rparr>)"

section \<open>What the component renders\<close>

text \<open>
  The six operations that send a request, each started by one control of the page: the
  two forms' submit buttons for login, fee payment and user creation, and the buttons of
  the lookup and history tabs.
\<close>

datatype operation =
    Login
  | FeePayment
  | StudentLookup
  | FeeSummary
  | TransactionHistory
  | UserCreation

fun perform :: "host \<Rightarrow> (request \<Rightarrow> fetch_result) \<Rightarrow> operation \<Rightarrow> app_state \<Rightarrow> run" where
  "perform h fetch Login s = handleLogin h fetch s"
| "perform h fetch FeePayment s = handleFeePayment h fetch s"
| "perform h fetch StudentLookup s = fetchStudentDetails h fetch s"
| "perform h fetch FeeSummary s = fetchFeeSummary h fetch s"
| "perform h fetch TransactionHistory s = fetchTransactionHistory h fetch s"
| "perform h fetch UserCreation s = createUser h fetch s"

text \<open>
  The \<^verbatim>\<open>disabled\<close> attribute of the control that starts each operation (lines 293,
  493, 517, 580, 660 and 776).
\<close>

fun control_disabled :: "operation \<Rightarrow> app_state \<Rightarrow> bool" where
  "control_disabled Login s = loading s"
| "control_disabled FeePayment s = loading s"
| "control_disabled StudentLookup s = (loading s \<or> studentSearchId s = [])"
| "control_disabled FeeSummary s =
     (loading s \<or> summaryStudentId s = [] \<or> summaryYearId s = [])"
| "control_disabled TransactionHistory s = loading s"
| "control_disabled UserCreation s = loading s"

text \<open>
  Line 247: without a truthy token the component renders the login page and nothing else;
  with one it renders the header, the tab bar and the content of the active tab (lines
  368, 406, 504, 560, 635 and 722).
\<close>

definition tab_shown :: "string \<Rightarrow> app_state \<Rightarrow> bool" where
  "tab_shown t s = (truthy (token s) \<and> activeTab s = t)"

text \<open>Where the form or panel of each operation is rendered.\<close>

fun form_shown :: "operation \<Rightarrow> app_state \<Rightarrow> bool" where
  "form_shown Login s = (\<not> truthy (token s))"
| "form_shown FeePayment s = tab_shown ''fee-payment'' s"
| "form_shown StudentLookup s = tab_shown ''student-details'' s"
| "form_shown FeeSummary s = tab_shown ''fee-summary'' s"
| "form_shown TransactionHistory s = tab_shown ''transactions'' s"
| "form_shown UserCreation s = tab_shown ''create-user'' s"

text \<open>The inputs, selects and the text area of each form or panel, in document order.\<close>

fun fields :: "operation \<Rightarrow> string list" where
  "fields Login = [''username'', ''password'']"
| "fields FeePayment =
     [''student_id'', ''amount'', ''transaction_date'', ''payment_method'', ''year_id'',
      ''reference_details'', ''description'']"
| "fields StudentLookup = [''studentSearchId'']"
| "fields FeeSummary = [''summaryStudentId'', ''summaryYearId'']"
| "fields TransactionHistory = [''historyStartDate'', ''historyEndDate'']"
| "fields UserCreation = [''username'', ''password'', ''full_name'', ''role'']"

definition tab_ids :: "string list" where
  "tab_ids =
     [''dashboard'', ''fee-payment'', ''student-details'', ''fee-summary'', ''transactions'',
      ''create-user'']"

text \<open>
  The controls of the page: the button that starts each operation, the logout button
  (line 313), the tab buttons (line 338) and the fields of the forms.
\<close>

datatype control =
    Button operation
  | LogoutButton
  | TabButton string
  | Field operation string

fun rendered :: "control \<Rightarrow> app_state \<Rightarrow> bool" where
  "rendered (Button op) s = form_shown op s"
| "rendered LogoutButton s = truthy (token s)"
| "rendered (TabButton t) s = (truthy (token s) \<and> t \<in> set tab_ids)"
| "rendered (Field op name) s = (form_shown op s \<and> name \<in> set (fields op))"

text \<open>
  Whether a control is disabled. Only the six buttons carry a \<^verbatim>\<open>disabled\<close>
  attribute; the logout button, the tab buttons and the fields have none.
\<close>

fun disabled :: "control \<Rightarrow> app_state \<Rightarrow> bool" where
  "disabled (Button op) s = control_disabled op s"
| "disabled LogoutButton s = False"
| "disabled (TabButton t) s = False"
| "disabled (Field op name) s = False"

text \<open>
  Lines 560 to 626: the three amounts of the fee summary card. The card is rendered on
  the fee summary tab when \<^verbatim>\<open>feeSummary\<close> is truthy, and rendering it reads the
  fields of \<^verbatim>\<open>feeSummary.student_details\<close> first; the result is \<open>None\<close> when the
  card is not rendered or a read throws.
\<close>

definition shown_amounts :: "host \<Rightarrow> app_state \<Rightarrow> (jsval \<times> jsval \<times> jsval) option" where
  "shown_amounts h s =
     (if tab_shown ''fee-summary'' s \<and> truthy (feeSummary s) then
        (case get_prop h ''student_details'' (feeSummary s) of
           Inl m \<Rightarrow> None
         | Inr sd \<Rightarrow>
             (case get_prop h ''full_name'' sd of
                Inl m \<Rightarrow> None
              | Inr name \<Rightarrow>
                  (case (get_prop h ''total_fees_due'' (feeSummary s),
                         get_prop h ''total_amount_paid'' (feeSummary s),
                         get_prop h ''pending_fees'' (feeSummary s)) of
                     (Inr due, Inr paid, Inr pending) \<Rightarrow> Some (due, paid, pending)
                   | _ \<Rightarrow> None)))
      else None)"

text \<open>
  Lines 504 and 525: the student card is rendered on the student details tab when
  \<^verbatim>\<open>studentDetails\<close> is truthy.
\<close>

definition student_card_shown :: "app_state \<Rightarrow> bool" where
  "student_card_shown s = (tab_shown ''student-details'' s \<and> truthy (studentDetails s))"

text \<open>
  A request has succeeded for \<^verbatim>\<open>apiCall\<close> when \<^verbatim>\<open>fetch\<close> resolved, the body
  parsed as JSON and the status is 2xx.
\<close>

definition succeeded :: "fetch_result \<Rightarrow> bool" where
  "succeeded fr =
     (case fr of
        Rejected m \<Rightarrow> False
      | Resolved r \<Rightarrow> ok r \<and> (case json r of Inl m \<Rightarrow> False | Inr data \<Rightarrow> True))"

text \<open>
  The message shown when a failed response carries no usable detail: line 112 for login,
  line 74 (\<^verbatim>\<open>apiCall\<close>) for every other operation.
\<close>

fun fallback_message :: "operation \<Rightarrow> string" where
  "fallback_message Login = ''Login failed''"
| "fallback_message op = ''An error occurred''"

section \<open>The finance service\<close>

text \<open>
  Modelled from the spec: the finance service (the application \<^verbatim>\<open>main:app\<close> that the
  Dockerfile starts) is not among the sources. This is the role of a user in its data
  model (section 3): Admin, Teaching Staff or Non-Teaching Staff.
\<close>

datatype role = Admin | TeachingStaff | NonTeachingStaff

text \<open>
  Modelled from the spec: the User of section 3, kept by the absent service: username,
  hashed password, full name and role.
\<close>

record user_record =
  u_username :: string
  u_password_hash :: string
  u_full_name :: string
  u_role :: role

text \<open>Modelled from the spec: the status of a Student (section 3) in the absent service.\<close>

datatype student_status = Active | Inactive

text \<open>
  Modelled from the spec: the Student of section 3, kept by the absent service: student
  id, admission number, full name, status and admission date.
\<close>

record student =
  st_student_id :: int
  st_admission_number :: string
  st_full_name :: string
  st_status :: student_status
  st_admission_date :: string

text \<open>Modelled from the spec: the AcademicYear of section 3 in the absent service.\<close>

record academic_year =
  ay_year_id :: int
  ay_label :: string

text \<open>Modelled from the spec: the type of a Transaction (section 3) in the absent service.\<close>

datatype transaction_type = Fee_Payment | Other

text \<open>
  Modelled from the spec: the Transaction of section 3, kept by the absent service. The
  academic year is the reference that section 3 gives transactions to an AcademicYear.
\<close>

record transaction =
  tx_transaction_id :: nat
  tx_type :: transaction_type
  tx_amount :: rat
  tx_date :: string
  tx_student_id :: "int option"
  tx_year_id :: "int option"
  tx_description :: "string option"
  tx_reference_details :: "string option"
  tx_recorded_by :: string
  tx_payment_method :: string

text \<open>
  Modelled from the spec: the fee schedule of section 4.4 in the absent service: the fees
  due of a student in an academic year.
\<close>

record fee_schedule =
  fs_student_id :: int
  fs_year_id :: int
  fs_fees_due :: rat

text \<open>Modelled from the spec: the relational store of the absent service (sections 1 and 3).\<close>

record service =
  users :: "user_record list"
  students :: "student list"
  years :: "academic_year list"
  schedules :: "fee_schedule list"
  transactions :: "transaction list"

text \<open>
  Modelled from the spec: the error taxonomy of section 7 (the service's code is not among
  the sources).
\<close>

datatype service_error =
    AuthenticationFailure
  | AuthorizationFailure
  | ValidationFailure
  | NotFound
  | ServerFailure

text \<open>
  Modelled from the spec: the derived fee summary of section 3, which the absent service
  computes: student details, the year's label, total fees due, total amount paid and
  pending fees.
\<close>

record fee_summary =
  student_details :: student
  academic_year :: string
  total_fees_due :: rat
  total_amount_paid :: rat
  pending_fees :: rat

text \<open>
  Modelled from the spec: section 4.4 of the absent service. The summary fails if the
  student or the year does not exist or no fee schedule is defined for the pair; the
  amount paid is the sum of the transactions of that student and year, and pending fees
  are due minus paid.
\<close>

definition get_fee_summary :: "service \<Rightarrow> int \<Rightarrow> int \<Rightarrow> service_error + fee_summary" where
  "get_fee_summary b sid yid =
     (case find (\<lambda>st. st_student_id st = sid) (students b) of
        None \<Rightarrow> Inl NotFound
      | Some st \<Rightarrow>
          (case find (\<lambda>y. ay_year_id y = yid) (years b) of
             None \<Rightarrow> Inl NotFound
           | Some y \<Rightarrow>
               (case find (\<lambda>f. fs_student_id f = sid \<and> fs_year_id f = yid) (schedules b) of
                  None \<Rightarrow> Inl NotFound
                | Some f \<Rightarrow>
                    let paid = sum_list (map tx_amount
                                 (filter (\<lambda>t. tx_student_id t = Some sid \<and> tx_year_id t = Some yid)
                                    (transactions b)))
                    in Inr \<lparr>student_details = st, academic_year = ay_label y,
                            total_fees_due = fs_fees_due f, total_amount_paid = paid,
                            pending_fees = fs_fees_due f - paid\<rparr>)))"

text \<open>
  Modelled from the spec: the well-formed data of section 3 for the absent service: no
  fee schedule and no transaction carries a negative amount.
\<close>

definition well_formed :: "service \<Rightarrow> bool" where
  "well_formed b =
     (list_all (\<lambda>f. 0 \<le> fs_fees_due f) (schedules b) \<and>
      list_all (\<lambda>t. 0 \<le> tx_amount t) (transactions b))"

text \<open>
  Modelled from the spec: section 4.3 of the absent service: the student record of an id,
  or a not-found error.
\<close>

definition get_student_details :: "service \<Rightarrow> int \<Rightarrow> service_error + student" where
  "get_student_details b sid =
     (case find (\<lambda>st. st_student_id st = sid) (students b) of
        None \<Rightarrow> Inl NotFound
      | Some st \<Rightarrow> Inr st)"

text \<open>
  Modelled from the spec: section 4.1 of the absent service: login returns a bearer token
  for a user whose password matches, and fails with an authentication error otherwise.
  How a password is checked against its stored hash (\<open>verify\<close>) and how the opaque token
  is made (\<open>issue\<close>) are the service's own and stay parameters.
\<close>

definition login ::
  "(string \<Rightarrow> string \<Rightarrow> bool) \<Rightarrow> (string \<Rightarrow> string) \<Rightarrow> service \<Rightarrow> string \<Rightarrow> string
     \<Rightarrow> service_error + string" where
  "login verify issue b name password =
     (case find (\<lambda>u. u_username u = name) (users b) of
        None \<Rightarrow> Inl AuthenticationFailure
      | Some u \<Rightarrow>
          if verify password (u_password_hash u) then Inr (issue name)
          else Inl AuthenticationFailure)"

text \<open>
  Modelled from the spec: the payload of section 4.2 as the absent service accepts it:
  student id, amount, transaction date, payment method, academic year id, and the optional
  reference details and description.
\<close>

record payment =
  p_student_id :: int
  p_amount :: rat
  p_transaction_date :: string
  p_payment_method :: string
  p_year_id :: int
  p_reference_details :: "string option"
  p_description :: "string option"

text \<open>
  What the receiver of \<^verbatim>\<open>JSON.stringify(v)\<close> parses: a Number that is not finite
  and an \<^verbatim>\<open>undefined\<close> array element are written as \<^verbatim>\<open>null\<close>, and a property
  that holds \<^verbatim>\<open>undefined\<close> is left out.
\<close>

fun parsed :: "jsval \<Rightarrow> jsval" where
  "parsed JUndefined = JNull"
| "parsed JNull = JNull"
| "parsed (JBool b) = JBool b"
| "parsed (JNum (Finite r)) = JNum (Finite r)"
| "parsed (JNum NaN) = JNull"
| "parsed (JNum PosInfinity) = JNull"
| "parsed (JNum NegInfinity) = JNull"
| "parsed (JStr t) = JStr t"
| "parsed (JArr xs) = JArr (map parsed xs)"
| "parsed (JObj kvs) =
     JObj (map (\<lambda>kv. (fst kv, parsed (snd kv))) (filter (\<lambda>kv. snd kv \<noteq> JUndefined) kvs))"

text \<open>
  Modelled from the spec: how the absent service reads an id from a request body
  (section 4.2: the ids are integers).
\<close>

fun as_integer :: "jsval \<Rightarrow> int option" where
  "as_integer (JNum (Finite r)) = (if of_int \<lfloor>r\<rfloor> = r then Some \<lfloor>r\<rfloor> else None)"
| "as_integer v = None"

text \<open>
  Modelled from the spec: how the absent service reads the amount from a request body
  (section 4.2: the amount is a decimal).
\<close>

fun as_decimal :: "jsval \<Rightarrow> rat option" where
  "as_decimal (JNum (Finite r)) = Some r"
| "as_decimal v = None"

text \<open>
  Modelled from the spec: how the absent service reads a date, a payment method, the
  reference details or the description from a request body (section 4.2).
\<close>

fun as_string :: "jsval \<Rightarrow> string option" where
  "as_string (JStr t) = Some t"
| "as_string v = None"

text \<open>
  Modelled from the spec: the fixed enumerated set of payment methods of section 4.2,
  which the absent service checks; its members are the options of the form (lines 452 to
  455).
\<close>

definition payment_methods :: "string list" where
  "payment_methods = [''Cash'', ''Bank Transfer'', ''Online'', ''Cheque'']"

text \<open>
  Modelled from the spec: the validation of the absent service (sections 4.2 and 7): the
  ids are integers, the amount is a decimal, the date is a string, the payment method is
  one of the enumerated set, and reference details and description may be missing.
\<close>

definition decode_payment :: "jsval \<Rightarrow> payment option" where
  "decode_payment j =
     (case j of
        JObj kvs \<Rightarrow>
          (case (Option.bind (map_of kvs ''student_id'') as_integer,
                 Option.bind (map_of kvs ''amount'') as_decimal,
                 Option.bind (map_of kvs ''transaction_date'') as_string,
                 Option.bind (map_of kvs ''payment_method'') as_string,
                 Option.bind (map_of kvs ''year_id'') as_integer) of
             (Some sid, Some amt, Some d, Some m, Some yid) \<Rightarrow>
               if m \<in> set payment_methods then
                 Some \<lparr>p_student_id = sid, p_amount = amt, p_transaction_date = d,
                       p_payment_method = m, p_year_id = yid,
                       p_reference_details =
                         Option.bind (map_of kvs ''reference_details'') as_string,
                       p_description = Option.bind (map_of kvs ''description'') as_string\<rparr>
               else None
           | _ \<Rightarrow> None)
      | _ \<Rightarrow> None)"

text \<open>
  Modelled from the spec: transaction ids of the absent service. A new transaction is a
  record distinct from every stored one, so it takes an id above all of theirs.
\<close>

definition next_transaction_id :: "transaction list \<Rightarrow> nat" where
  "next_transaction_id ts = Suc (foldr max (map tx_transaction_id ts) 0)"

text \<open>
  Modelled from the spec: section 4.2 of the absent service: a valid payload creates one
  transaction of type Fee Payment attributed to the authenticated user \<open>name\<close>, appended
  to the stored ones; there is no idempotency key.
\<close>

definition create_fee_payment ::
  "service \<Rightarrow> string \<Rightarrow> jsval \<Rightarrow> service_error + (transaction \<times> service)" where
  "create_fee_payment b name j =
     (case decode_payment j of
        None \<Rightarrow> Inl ValidationFailure
      | Some p \<Rightarrow>
          let t = \<lparr>tx_transaction_id = next_transaction_id (transactions b),
                   tx_type = Fee_Payment,
                   tx_amount = p_amount p,
                   tx_date = p_transaction_date p,
                   tx_student_id = Some (p_student_id p),
                   tx_year_id = Some (p_year_id p),
                   tx_description = p_description p,
                   tx_reference_details = p_reference_details p,
                   tx_recorded_by = name,
                   tx_payment_method = p_payment_method p\<rparr>
          in Inr (t, b\<lparr>transactions := transactions b @ [t]\<rparr>))"

text \<open>
  Modelled from the spec: the error contract of the absent service (section 6): a non-2xx
  response carries a JSON body with a human-readable detail \<open>d\<close>.
\<close>

definition error_response :: "response \<Rightarrow> string \<Rightarrow> bool" where
  "error_response r d =
     (\<not> ok r \<and> d \<noteq> [] \<and>
      (case json r of
         Inr (JObj kvs) \<Rightarrow> map_of kvs ''detail'' = Some (JStr d)
       | _ \<Rightarrow> False))"

text \<open>
  Modelled from the spec: a successful response of the absent service (section 6): a 2xx
  status and the result \<open>v\<close> as JSON body.
\<close>

definition success_response :: "response \<Rightarrow> jsval \<Rightarrow> bool" where
  "success_response r v = (ok r \<and> json r = Inr v)"

text \<open>
  Modelled from the spec: the student record as the absent service returns it (section
  4.3), under the field names that the component reads (lines 531 to 551).
\<close>

definition student_json :: "student \<Rightarrow> jsval" where
  "student_json st =
     JObj [(''student_id'', JNum (Finite (of_int (st_student_id st)))),
           (''admission_number'', JStr (st_admission_number st)),
           (''full_name'', JStr (st_full_name st)),
           (''status'', JStr (case st_status st of Active \<Rightarrow> ''Active''
                               | Inactive \<Rightarrow> ''Inactive'')),
           (''admission_date'', JStr (st_admission_date st))]"

text \<open>
  Modelled from the spec: the fee summary as the absent service returns it (section 4.4),
  under the field names that the component reads (lines 594 to 626).
\<close>

definition fee_summary_json :: "fee_summary \<Rightarrow> jsval" where
  "fee_summary_json f =
     JObj [(''student_details'', student_json (student_details f)),
           (''academic_year'', JStr (academic_year f)),
           (''total_fees_due'', JNum (Finite (total_fees_due f))),
           (''total_amount_paid'', JNum (Finite (total_amount_paid f))),
           (''pending_fees'', JNum (Finite (pending_fees f)))]"

text \<open>
  Modelled from the spec: the body with which the absent service returns a token
  (section 4.1), under the field name that the component reads (line 115).
\<close>

definition token_json :: "string \<Rightarrow> jsval" where
  "token_json t = JObj [(''access_token'', JStr t)]"

section \<open>Example inputs\<close>

definition example_host :: host where
  "example_host =
     \<lparr>parseFloat = (\<lambda>t. if t = ''500.00'' then Finite 500 else NaN),
      parseInt = (\<lambda>t. if t = ''42'' then Finite 42
                       else if t = ''2024'' then Finite 2024 else NaN),
      numberToString = (\<lambda>r. if r = 500 then ''500'' else ''0''),
      nowISO = ''2026-11-02T10:15:30.000Z'',
      nullPropertyMessage = (\<lambda>k. ''Cannot read properties of null (reading '' @ k @ '')'')\<rparr>"

definition example_state :: app_state where
  "example_state =
     \<lparr>token = JStr ''tok-1'',
      user = JObj [(''username'', JStr ''asha'')],
      activeTab = ''fee-payment'', loading = False, error = [], success = [],
      loginData = \<lparr>login_username = ''asha'', login_password = ''s3cret''\<rparr>,
      feePayment =
        \<lparr>fp_student_id = ''42'', fp_amount = ''500.00'',
         fp_transaction_date = ''2026-11-01'', fp_payment_method = ''Online'',
         fp_reference_details = ''UPI 7731'', fp_description = ''Term 2'',
         fp_year_id = ''2024''\<rparr>,
      studentSearchId = ''42'', studentDetails = JNull, feeSummary = JNull,
      summaryStudentId = ''42'', summaryYearId = ''2024'',
      transactionHistory = JArr [],
      historyStartDate = ''2026-11-01'', historyEndDate = ''2026-11-02'',
      newUser =
        \<lparr>nu_username = ''ravi'', nu_password = ''pw'', nu_full_name = ''Ravi K'',
         nu_role = ''Admin''\<rparr>,
      localStorage = [''token'' \<mapsto> Plain ''tok-1'']\<rparr>"

definition fetch_offline :: "request \<Rightarrow> fetch_result" where
  "fetch_offline req = Rejected ''Failed to fetch''"

definition fetch_replying :: "response \<Rightarrow> request \<Rightarrow> fetch_result" where
  "fetch_replying r req = Resolved r"

definition example_fee_request :: request where
  "example_fee_request =
     \<lparr>url = ''http://localhost:8000/transactions/fee-payment'',
      http_method = Some ''POST'',
      headers = [(''Content-Type'', ''application/json''),
                 (''Authorization'', ''Bearer tok-1'')],
      req_body = Some (Text (Json (JObj
        [(''student_id'', JNum (Finite 42)),
         (''amount'', JNum (Finite 500)),
         (''transaction_date'', JStr ''2026-11-01''),
         (''payment_method'', JStr ''Online''),
         (''reference_details'', JStr ''UPI 7731''),
         (''description'', JStr ''Term 2''),
         (''year_id'', JNum (Finite 2024))])))\<rparr>"

definition example_signup_request :: request where
  "example_signup_request =
     \<lparr>url = ''http://localhost:8000/signup'',
      http_method = Some ''POST'',
      headers = [(''Content-Type'', ''application/json''),
                 (''Authorization'', ''Bearer tok-1'')],
      req_body = Some (Text (Json (JObj
        [(''username'', JStr ''ravi''),
         (''password'', JStr ''pw''),
         (''full_name'', JStr ''Ravi K''),
         (''role'', JStr ''Admin'')])))\<rparr>"

definition example_login_request :: request where
  "example_login_request =
     \<lparr>url = ''http://localhost:8000/login'',
      http_method = Some ''POST'',
      headers = [],
      req_body = Some (FormData [(''username'', ''asha''), (''password'', ''s3cret'')])\<rparr>"

definition example_details_request :: request where
  "example_details_request =
     \<lparr>url = ''http://localhost:8000/students/42/details'',
      http_method = None,
      headers = [(''Content-Type'', ''application/json''),
                 (''Authorization'', ''Bearer tok-1'')],
      req_body = None\<rparr>"

definition example_summary_request :: request where
  "example_summary_request =
     \<lparr>url = ''http://localhost:8000/students/42/fee-summary/2024'',
      http_method = None,
      headers = [(''Content-Type'', ''application/json''),
                 (''Authorization'', ''Bearer tok-1'')],
      req_body = None\<rparr>"

definition example_history_request :: request where
  "example_history_request =
     \<lparr>url = ''http://localhost:8000/transactions/history?start_date=2026-11-01&end_date=2026-11-02'',
      http_method = None,
      headers = [(''Content-Type'', ''application/json''),
                 (''Authorization'', ''Bearer tok-1'')],
      req_body = None\<rparr>"

definition not_found_response :: response where
  "not_found_response =
     \<lparr>status = 404, json = Inr (JObj [(''detail'', JStr ''Student not found'')])\<rparr>"

definition unauthorized_response :: response where
  "unauthorized_response =
     \<lparr>status = 401,
      json = Inr (JObj [(''detail'', JStr ''Incorrect username or password'')])\<rparr>"

definition response_without_detail :: response where
  "response_without_detail =
     \<lparr>status = 500, json = Inr (JObj [(''message'', JStr ''Internal Server Error'')])\<rparr>"

definition response_with_empty_detail :: response where
  "response_with_empty_detail = \<lparr>status = 400, json = Inr (JObj [(''detail'', JStr [])])\<rparr>"

definition failed_to_fetch_response :: response where
  "failed_to_fetch_response =
     \<lparr>status = 503, json = Inr (JObj [(''detail'', JStr ''Failed to fetch'')])\<rparr>"

definition created_response :: response where
  "created_response = \<lparr>status = 200, json = Inr (JObj [(''transaction_id'', JNum (Finite 2))])\<rparr>"

definition example_student :: student where
  "example_student =
     \<lparr>st_student_id = 42, st_admission_number = ''ADM-042'', st_full_name = ''Meera Nair'',
      st_status = Active, st_admission_date = ''2021-06-01''\<rparr>"

definition example_service :: service where
  "example_service =
     \<lparr>users = [\<lparr>u_username = ''asha'', u_password_hash = ''h:s3cret'',
                u_full_name = ''Asha Rao'', u_role = Admin\<rparr>],
      students = [example_student],
      years = [\<lparr>ay_year_id = 2024, ay_label = ''2024-25''\<rparr>],
      schedules = [\<lparr>fs_student_id = 42, fs_year_id = 2024, fs_fees_due = 1200\<rparr>],
      transactions =
        [\<lparr>tx_transaction_id = 1, tx_type = Fee_Payment, tx_amount = 300,
          tx_date = ''2026-07-01'', tx_student_id = Some 42, tx_year_id = Some 2024,
          tx_description = None, tx_reference_details = None, tx_recorded_by = ''asha'',
          tx_payment_method = ''Cash''\<rparr>]\<rparr>"

definition example_summary :: fee_summary where
  "example_summary =
     \<lparr>student_details = example_student, academic_year = ''2024-25'',
      total_fees_due = 1200, total_amount_paid = 300, pending_fees = 900\<rparr>"

definition example_verify :: "string \<Rightarrow> string \<Rightarrow> bool" where
  "example_verify password stored = (stored = ''h:'' @ password)"

definition example_issue :: "string \<Rightarrow> string" where
  "example_issue name = ''tok-'' @ name"

definition logged_out_state :: app_state where
  "logged_out_state = example_state\<lparr>token := JNull, user := JNull, localStorage := Map.empty\<rparr>"

definition token_response :: response where
  "token_response = \<lparr>status = 200, json = Inr (JObj [(''access_token'', JStr ''tok-asha'')])\<rparr>"

definition summary_response :: response where
  "summary_response = \<lparr>status = 200, json = Inr (fee_summary_json example_summary)\<rparr>"

definition example_payload :: jsval where
  "example_payload =
     JObj [(''student_id'', JNum (Finite 42)),
           (''amount'', JNum (Finite 500)),
           (''transaction_date'', JStr ''2026-11-01''),
           (''payment_method'', JStr ''Online''),
           (''reference_details'', JStr ''UPI 7731''),
           (''description'', JStr ''Term 2''),
           (''year_id'', JNum (Finite 2024))]"

definition example_transaction :: "nat \<Rightarrow> transaction" where
  "example_transaction n =
     \<lparr>tx_transaction_id = n, tx_type = Fee_Payment, tx_amount = 500,
      tx_date = ''2026-11-01'', tx_student_id = Some 42, tx_year_id = Some 2024,
      tx_description = Some ''Term 2'', tx_reference_details = Some ''UPI 7731'',
      tx_recorded_by = ''asha'', tx_payment_method = ''Online''\<rparr>"

definition later_host :: host where
  "later_host = example_host\<lparr>nowISO := ''2027-01-15T23:59:58.250Z''\<rparr>"

definition summary_tab_state :: app_state where
  "summary_tab_state = example_state\<lparr>activeTab := ''fee-summary''\<rparr>"

section \<open>Properties of the handlers\<close>

lemma loading_disables: "loading s \<Longrightarrow> control_disabled op s"
  by (cases op) simp_all

lemmas handler_defs =
  handleLogin_def handleFeePayment_def fetchStudentDetails_def fetchFeeSummary_def
  fetchTransactionHistory_def createUser_def apiCall_def

lemma succeeded_iff: "succeeded fr \<longleftrightarrow> (\<exists>d. apiCall_result h fr = Inr d)"
  by (auto simp: succeeded_def apiCall_result_def split: fetch_result.splits sum.splits)

lemmas example_defs =
  example_host_def example_state_def fetch_offline_def fetch_replying_def
  example_fee_request_def example_signup_request_def example_login_request_def
  example_details_request_def example_summary_request_def example_history_request_def
  API_BASE_URL_def apiCall_request_def apiCall_result_def feePayment_body_def
  feePayment_props_def newUser_body_def login_request_def no_options_def ok_def js_or_def

text \<open>
  C10. The student lookup and the fee summary lookup are guarded: with an empty student
  id (for the lookup), or an empty student id or academic year id (for the summary), the
  handler returns at once. It sends no request, renders no intermediate state and leaves
  every state cell, \<^verbatim>\<open>loading\<close>, \<^verbatim>\<open>error\<close> and the results included, as it was.
\<close>

theorem lookups_guarded_noop:
  "(studentSearchId s = [] \<longrightarrow>
      fetchStudentDetails h fetch s = \<lparr>sent = [], awaiting = None, final = s\<rparr>) \<and>
   (summaryStudentId s = [] \<or> summaryYearId s = [] \<longrightarrow>
      fetchFeeSummary h fetch s = \<lparr>sent = [], awaiting = None, final = s\<rparr>)"
  by (simp add: fetchStudentDetails_def fetchFeeSummary_def)

theorem lookups_guarded_noop_witness:
  "studentSearchId (example_state\<lparr>studentSearchId := []\<rparr>) = [] \<and>
   fetchStudentDetails example_host fetch_offline
       (example_state\<lparr>studentSearchId := []\<rparr>)
     = \<lparr>sent = [], awaiting = None, final = example_state\<lparr>studentSearchId := []\<rparr>\<rparr> \<and>
   (summaryStudentId (example_state\<lparr>summaryYearId := []\<rparr>) = [] \<or>
    summaryYearId (example_state\<lparr>summaryYearId := []\<rparr>) = []) \<and>
   fetchFeeSummary example_host fetch_offline
       (example_state\<lparr>summaryYearId := []\<rparr>)
     = \<lparr>sent = [], awaiting = None, final = example_state\<lparr>summaryYearId := []\<rparr>\<rparr>"
  using
    lookups_guarded_noop [of "example_state\<lparr>studentSearchId := []\<rparr>" example_host
      fetch_offline]
    lookups_guarded_noop [of "example_state\<lparr>summaryYearId := []\<rparr>" example_host
      fetch_offline]
  by simp

text \<open>
  C8, as the specification states it: while the request is in flight the UI is disabled.
  It fails: only the six buttons that start an operation carry a \<^verbatim>\<open>disabled\<close>
  attribute. While the fee payment request is in flight, with \<^verbatim>\<open>loading\<close> true, the
  logout button, the tab buttons and the fields of the form are rendered and enabled.
\<close>

theorem ui_disabled_counterexample:
  "awaiting (perform example_host fetch_offline FeePayment example_state)
     = Some (example_state\<lparr>loading := True\<rparr>) \<and>
   loading (example_state\<lparr>loading := True\<rparr>) \<and>
   rendered LogoutButton (example_state\<lparr>loading := True\<rparr>) \<and>
   \<not> disabled LogoutButton (example_state\<lparr>loading := True\<rparr>) \<and>
   rendered (TabButton ''dashboard'') (example_state\<lparr>loading := True\<rparr>) \<and>
   \<not> disabled (TabButton ''dashboard'') (example_state\<lparr>loading := True\<rparr>) \<and>
   rendered (Field FeePayment ''amount'') (example_state\<lparr>loading := True\<rparr>) \<and>
   \<not> disabled (Field FeePayment ''amount'') (example_state\<lparr>loading := True\<rparr>)"
  by (simp add: handleFeePayment_def apiCall_def Let_def example_state_def tab_shown_def
        tab_ids_def split: prod.splits)

text \<open>
  C8, amended. Each of the six operations sends exactly one request: always for login,
  fee payment, transaction history and user creation, and for the two lookups whenever
  the ids they need are not empty. When it does, and whatever \<^verbatim>\<open>fetch\<close> settles
  with, the state rendered while the request is in flight has \<^verbatim>\<open>loading\<close> true, and
  in it the disabled controls are exactly the six buttons that start an operation (the
  logout button, the tab buttons and the fields stay enabled); the state the handler
  leaves has \<^verbatim>\<open>loading\<close> false, on the success path and on the error path alike. A
  handler started with \<^verbatim>\<open>loading\<close> false never leaves it true.
\<close>

theorem loading_brackets_every_request:
  "((op = StudentLookup \<longrightarrow> studentSearchId s \<noteq> []) \<and>
    (op = FeeSummary \<longrightarrow> summaryStudentId s \<noteq> [] \<and> summaryYearId s \<noteq> []) \<longrightarrow>
      (\<exists>req s1. sent (perform h fetch op s) = [req] \<and>
                awaiting (perform h fetch op s) = Some s1 \<and> loading s1 \<and>
                (\<forall>c. disabled c s1 \<longleftrightarrow> (\<exists>op'. c = Button op')) \<and>
                \<not> loading (final (perform h fetch op s)))) \<and>
   (sent (perform h fetch op s) \<noteq> [] \<longrightarrow>
      (\<exists>s1. awaiting (perform h fetch op s) = Some s1 \<and> loading s1 \<and>
            (\<forall>op'. control_disabled op' s1)) \<and>
      \<not> loading (final (perform h fetch op s))) \<and>
   (\<not> loading s \<longrightarrow> \<not> loading (final (perform h fetch op s)))"
proof -
  have buttons: "disabled c s1 \<longleftrightarrow> (\<exists>op'. c = Button op')" if "loading s1" for c s1
    using that by (cases c) (simp_all add: loading_disables)
  have issued: "(op = StudentLookup \<longrightarrow> studentSearchId s \<noteq> []) \<and>
    (op = FeeSummary \<longrightarrow> summaryStudentId s \<noteq> [] \<and> summaryYearId s \<noteq> []) \<longrightarrow>
      (\<exists>req s1. sent (perform h fetch op s) = [req] \<and>
                awaiting (perform h fetch op s) = Some s1 \<and> loading s1 \<and>
                \<not> loading (final (perform h fetch op s)))"
    by (cases op) (auto simp: handler_defs Let_def split: prod.splits)
  have bracket: "sent (perform h fetch op s) \<noteq> [] \<longrightarrow>
      (\<exists>s1. awaiting (perform h fetch op s) = Some s1 \<and> loading s1 \<and>
            (\<forall>op'. control_disabled op' s1)) \<and>
      \<not> loading (final (perform h fetch op s))"
    by (cases op)
       (auto simp: handler_defs Let_def loading_disables split: if_splits prod.splits)
  have idle: "\<not> loading s \<longrightarrow> \<not> loading (final (perform h fetch op s))"
    by (cases op) (auto simp: handler_defs Let_def split: if_splits prod.splits)
  from issued buttons have "(op = StudentLookup \<longrightarrow> studentSearchId s \<noteq> []) \<and>
    (op = FeeSummary \<longrightarrow> summaryStudentId s \<noteq> [] \<and> summaryYearId s \<noteq> []) \<longrightarrow>
      (\<exists>req s1. sent (perform h fetch op s) = [req] \<and>
                awaiting (perform h fetch op s) = Some s1 \<and> loading s1 \<and>
                (\<forall>c. disabled c s1 \<longleftrightarrow> (\<exists>op'. c = Button op')) \<and>
                \<not> loading (final (perform h fetch op s)))"
    by meson
  with bracket idle show ?thesis by blast
qed

theorem loading_brackets_every_request_witness:
  "\<not> loading example_state \<and>
   sent (perform example_host fetch_offline FeePayment example_state)
     = [example_fee_request] \<and>
   awaiting (perform example_host fetch_offline FeePayment example_state)
     = Some (example_state\<lparr>loading := True\<rparr>) \<and>
   \<not> loading (final (perform example_host fetch_offline FeePayment example_state)) \<and>
   sent (perform example_host (fetch_replying created_response) FeePayment example_state)
     = [example_fee_request] \<and>
   \<not> loading (final (perform example_host (fetch_replying created_response) FeePayment
                       example_state)) \<and>
   summaryStudentId example_state \<noteq> [] \<and> summaryYearId example_state \<noteq> [] \<and>
   sent (perform example_host (fetch_replying summary_response) FeeSummary example_state)
     = [example_summary_request] \<and>
   awaiting (perform example_host (fetch_replying summary_response) FeeSummary
               example_state)
     = Some (example_state\<lparr>loading := True\<rparr>) \<and>
   \<not> loading (final (perform example_host (fetch_replying summary_response) FeeSummary
                       example_state)) \<and>
   studentSearchId example_state \<noteq> [] \<and>
   sent (perform example_host (fetch_replying not_found_response) StudentLookup
           example_state)
     = [example_details_request] \<and>
   \<not> loading (final (perform example_host (fetch_replying not_found_response)
                       StudentLookup example_state)) \<and>
   disabled (Button Login) (example_state\<lparr>loading := True\<rparr>) \<and>
   disabled (Button FeePayment) (example_state\<lparr>loading := True\<rparr>) \<and>
   disabled (Button StudentLookup) (example_state\<lparr>loading := True\<rparr>) \<and>
   disabled (Button FeeSummary) (example_state\<lparr>loading := True\<rparr>) \<and>
   disabled (Button TransactionHistory) (example_state\<lparr>loading := True\<rparr>) \<and>
   disabled (Button UserCreation) (example_state\<lparr>loading := True\<rparr>)"
proof -
  have fee: "sent (handleFeePayment example_host f example_state) = [example_fee_request]"
    for f
    by (simp add: handleFeePayment_def apiCall_def Let_def example_defs split: prod.splits)
  have summary: "sent (fetchFeeSummary example_host f example_state)
                   = [example_summary_request]" for f
    by (simp add: fetchFeeSummary_def apiCall_def Let_def example_defs split: prod.splits)
  have details: "sent (fetchStudentDetails example_host f example_state)
                   = [example_details_request]" for f
    by (simp add: fetchStudentDetails_def apiCall_def Let_def example_defs split: prod.splits)
  have flight:
    "awaiting (handleFeePayment example_host f example_state)
       = Some (example_state\<lparr>loading := True\<rparr>)"
    "awaiting (fetchFeeSummary example_host f example_state)
       = Some (example_state\<lparr>loading := True\<rparr>)" for f
    by (simp_all add: handleFeePayment_def fetchFeeSummary_def apiCall_def Let_def
          example_state_def split: prod.splits)
  have ids: "\<not> loading example_state" "summaryStudentId example_state \<noteq> []"
    "summaryYearId example_state \<noteq> []" "studentSearchId example_state \<noteq> []"
    by (simp_all add: example_state_def)
  from loading_brackets_every_request
         [of FeePayment example_state example_host fetch_offline]
       loading_brackets_every_request
         [of FeePayment example_state example_host "fetch_replying created_response"]
       loading_brackets_every_request
         [of FeeSummary example_state example_host "fetch_replying summary_response"]
       loading_brackets_every_request
         [of StudentLookup example_state example_host "fetch_replying not_found_response"]
  show ?thesis
    by (simp add: fee summary details flight ids)
qed

lemma date_of_iso:
  "CHR ''T'' \<notin> set day \<Longrightarrow> takeWhile (\<lambda>c. c \<noteq> CHR ''T'') (day @ CHR ''T'' # time) = day"
  by (induction day) auto

text \<open>
  C9. The fee payment handler and the user creation handler each send one request. When
  the fee payment request succeeds, the fee payment form is set back to its defaults:
  every text field empty, the payment method \<^verbatim>\<open>Cash\<close> and the transaction date the
  current day, which is the part of the clock's ISO reading before its \<^verbatim>\<open>T\<close>. When the
  user creation request succeeds, the new-user form is set back to its defaults: role
  \<^verbatim>\<open>Teaching Staff\<close>, the other fields empty. When either request fails, the form
  keeps the values entered.
\<close>

theorem forms_reset_on_success_only:
  "(\<exists>req. sent (handleFeePayment h fetch s) = [req]) \<and>
   (\<exists>req. sent (createUser h fetch s) = [req]) \<and>
   (sent (handleFeePayment h fetch s) = [req] \<and> succeeded (fetch req) \<longrightarrow>
      feePayment (final (handleFeePayment h fetch s)) =
        \<lparr>fp_student_id = [], fp_amount = [],
         fp_transaction_date = takeWhile (\<lambda>c. c \<noteq> CHR ''T'') (nowISO h),
         fp_payment_method = ''Cash'', fp_reference_details = [], fp_description = [],
         fp_year_id = []\<rparr>) \<and>
   (sent (handleFeePayment h fetch s) = [req] \<and> succeeded (fetch req) \<and>
    nowISO h = day @ CHR ''T'' # time \<and> CHR ''T'' \<notin> set day \<longrightarrow>
      fp_transaction_date (feePayment (final (handleFeePayment h fetch s))) = day) \<and>
   (sent (handleFeePayment h fetch s) = [req] \<and> \<not> succeeded (fetch req) \<longrightarrow>
      feePayment (final (handleFeePayment h fetch s)) = feePayment s) \<and>
   (sent (createUser h fetch s) = [req'] \<and> succeeded (fetch req') \<longrightarrow>
      newUser (final (createUser h fetch s)) =
        \<lparr>nu_username = [], nu_password = [], nu_full_name = [],
         nu_role = ''Teaching Staff''\<rparr>) \<and>
   (sent (createUser h fetch s) = [req'] \<and> \<not> succeeded (fetch req') \<longrightarrow>
      newUser (final (createUser h fetch s)) = newUser s)"
proof -
  have one: "\<exists>req. sent (handleFeePayment h fetch s) = [req]"
    "\<exists>req. sent (createUser h fetch s) = [req]"
    by (simp_all add: handler_defs Let_def split: prod.splits)
  have reset: "sent (handleFeePayment h fetch s) = [req] \<and> succeeded (fetch req) \<longrightarrow>
      feePayment (final (handleFeePayment h fetch s)) =
        \<lparr>fp_student_id = [], fp_amount = [],
         fp_transaction_date = takeWhile (\<lambda>c. c \<noteq> CHR ''T'') (nowISO h),
         fp_payment_method = ''Cash'', fp_reference_details = [], fp_description = [],
         fp_year_id = []\<rparr>"
    by (auto simp: handler_defs Let_def succeeded_iff [of _ h] initialFeePayment_def
          today_def split: prod.splits sum.splits)
  have day: "sent (handleFeePayment h fetch s) = [req] \<and> succeeded (fetch req) \<and>
    nowISO h = day @ CHR ''T'' # time \<and> CHR ''T'' \<notin> set day \<longrightarrow>
      fp_transaction_date (feePayment (final (handleFeePayment h fetch s))) = day"
    using reset by (auto simp: date_of_iso)
  have rest: "(sent (handleFeePayment h fetch s) = [req] \<and> \<not> succeeded (fetch req) \<longrightarrow>
      feePayment (final (handleFeePayment h fetch s)) = feePayment s) \<and>
   (sent (createUser h fetch s) = [req'] \<and> succeeded (fetch req') \<longrightarrow>
      newUser (final (createUser h fetch s)) =
        \<lparr>nu_username = [], nu_password = [], nu_full_name = [],
         nu_role = ''Teaching Staff''\<rparr>) \<and>
   (sent (createUser h fetch s) = [req'] \<and> \<not> succeeded (fetch req') \<longrightarrow>
      newUser (final (createUser h fetch s)) = newUser s)"
    by (auto simp: handler_defs Let_def succeeded_iff [of _ h] initialNewUser_def
          split: prod.splits sum.splits)
  from one reset day rest show ?thesis by blast
qed

theorem forms_reset_on_success_only_witness:
  "sent (handleFeePayment example_host (fetch_replying created_response) example_state)
     = [example_fee_request] \<and>
   succeeded (fetch_replying created_response example_fee_request) \<and>
   nowISO example_host = ''2026-11-02'' @ CHR ''T'' # ''10:15:30.000Z'' \<and>
   CHR ''T'' \<notin> set ''2026-11-02'' \<and>
   feePayment (final (handleFeePayment example_host (fetch_replying created_response)
                        example_state)) =
     \<lparr>fp_student_id = [], fp_amount = [], fp_transaction_date = ''2026-11-02'',
      fp_payment_method = ''Cash'', fp_reference_details = [], fp_description = [],
      fp_year_id = []\<rparr> \<and>
   sent (handleFeePayment later_host (fetch_replying created_response) example_state)
     = [example_fee_request] \<and>
   nowISO later_host = ''2027-01-15'' @ CHR ''T'' # ''23:59:58.250Z'' \<and>
   CHR ''T'' \<notin> set ''2027-01-15'' \<and>
   feePayment (final (handleFeePayment later_host (fetch_replying created_response)
                        example_state)) =
     \<lparr>fp_student_id = [], fp_amount = [], fp_transaction_date = ''2027-01-15'',
      fp_payment_method = ''Cash'', fp_reference_details = [], fp_description = [],
      fp_year_id = []\<rparr> \<and>
   sent (createUser example_host (fetch_replying created_response) example_state)
     = [example_signup_request] \<and>
   succeeded (fetch_replying created_response example_signup_request) \<and>
   newUser (final (createUser example_host (fetch_replying created_response)
                     example_state)) =
     \<lparr>nu_username = [], nu_password = [], nu_full_name = [],
      nu_role = ''Teaching Staff''\<rparr> \<and>
   sent (handleFeePayment example_host fetch_offline example_state)
     = [example_fee_request] \<and>
   \<not> succeeded (fetch_offline example_fee_request) \<and>
   feePayment (final (handleFeePayment example_host fetch_offline example_state)) =
     \<lparr>fp_student_id = ''42'', fp_amount = ''500.00'',
      fp_transaction_date = ''2026-11-01'', fp_payment_method = ''Online'',
      fp_reference_details = ''UPI 7731'', fp_description = ''Term 2'',
      fp_year_id = ''2024''\<rparr> \<and>
   sent (createUser example_host fetch_offline example_state) = [example_signup_request] \<and>
   \<not> succeeded (fetch_offline example_signup_request) \<and>
   newUser (final (createUser example_host fetch_offline example_state)) =
     \<lparr>nu_username = ''ravi'', nu_password = ''pw'', nu_full_name = ''Ravi K'',
      nu_role = ''Admin''\<rparr>"
proof -
  have fee: "sent (handleFeePayment example_host f example_state) = [example_fee_request]"
    "sent (handleFeePayment later_host f example_state) = [example_fee_request]" for f
    by (simp_all add: handleFeePayment_def apiCall_def Let_def later_host_def example_defs
          split: prod.splits)
  have signup: "sent (createUser example_host f example_state) = [example_signup_request]"
    for f
    by (simp add: createUser_def apiCall_def Let_def example_defs split: prod.splits)
  have yes: "succeeded (fetch_replying created_response r)" for r
    by (simp add: succeeded_def fetch_replying_def created_response_def ok_def)
  have no: "\<not> succeeded (fetch_offline r)" for r
    by (simp add: succeeded_def fetch_offline_def)
  have clock: "nowISO example_host = ''2026-11-02T10:15:30.000Z''"
    "nowISO later_host = ''2027-01-15T23:59:58.250Z''"
    by (simp_all add: later_host_def example_host_def)
  have forms:
    "feePayment example_state =
       \<lparr>fp_student_id = ''42'', fp_amount = ''500.00'',
        fp_transaction_date = ''2026-11-01'', fp_payment_method = ''Online'',
        fp_reference_details = ''UPI 7731'', fp_description = ''Term 2'',
        fp_year_id = ''2024''\<rparr>"
    "newUser example_state =
       \<lparr>nu_username = ''ravi'', nu_password = ''pw'', nu_full_name = ''Ravi K'',
        nu_role = ''Admin''\<rparr>"
    by (simp_all add: example_state_def)
  from forms_reset_on_success_only
         [of example_host "fetch_replying created_response" example_state
             example_fee_request "''2026-11-02''" "''10:15:30.000Z''"
             example_signup_request]
       forms_reset_on_success_only
         [of later_host "fetch_replying created_response" example_state
             example_fee_request "''2027-01-15''" "''23:59:58.250Z''"
             example_signup_request]
       forms_reset_on_success_only
         [of example_host fetch_offline example_state
             example_fee_request "''2026-11-02''" "''10:15:30.000Z''"
             example_signup_request]
  show ?thesis
    by (simp add: fee signup yes no clock forms)
qed

text \<open>
  C6, as the specification states it: for every non-2xx response the client shows the
  \<^verbatim>\<open>detail\<close> field of the JSON body verbatim. It fails for a non-2xx response
  whose body has no \<^verbatim>\<open>detail\<close>, and for one whose \<^verbatim>\<open>detail\<close> is the empty
  string: the client shows the fixed message \<^verbatim>\<open>An error occurred\<close> instead.
\<close>

theorem detail_verbatim_counterexample:
  "\<not> ok response_without_detail \<and>
   json response_without_detail = Inr (JObj [(''message'', JStr ''Internal Server Error'')]) \<and>
   error (final (fetchTransactionHistory example_host
                   (fetch_replying response_without_detail) example_state))
     = ''An error occurred'' \<and>
   \<not> ok response_with_empty_detail \<and>
   json response_with_empty_detail = Inr (JObj [(''detail'', JStr [])]) \<and>
   error (final (fetchTransactionHistory example_host
                   (fetch_replying response_with_empty_detail) example_state))
     \<noteq> []"
  by (simp add: response_without_detail_def response_with_empty_detail_def
        fetchTransactionHistory_def apiCall_def Let_def example_defs split: prod.splits)

text \<open>
  C6, amended. For each of the six operations: a non-2xx response whose JSON body has a
  non-empty string as \<^verbatim>\<open>detail\<close> makes that string, verbatim, the one error message
  of the page; when the \<^verbatim>\<open>detail\<close> is missing or falsy the message is the fixed
  fallback (\<^verbatim>\<open>Login failed\<close> for login, \<^verbatim>\<open>An error occurred\<close> otherwise). A
  rejected \<^verbatim>\<open>fetch\<close> is caught and leaves exactly the run that a non-2xx response
  with the same message as \<^verbatim>\<open>detail\<close> leaves. Whatever the outcome, the operation
  sends at most one request: nothing is retried.
\<close>

theorem error_message_from_detail:
  "(sent (perform h fetch op s) = [req] \<and> fetch req = Resolved r \<and> \<not> ok r \<and>
    json r = Inr data \<and> get_prop h ''detail'' data = Inr (JStr d) \<and> d \<noteq> [] \<longrightarrow>
      error (final (perform h fetch op s)) = d) \<and>
   (sent (perform h fetch op s) = [req] \<and> fetch req = Resolved r \<and> \<not> ok r \<and>
    json r = Inr data \<and> get_prop h ''detail'' data = Inr v \<and> \<not> truthy v \<longrightarrow>
      error (final (perform h fetch op s)) = fallback_message op) \<and>
   (sent (perform h fetch op s) = [req] \<and> fetch req = Rejected d \<and> d \<noteq> [] \<and>
    fetch' req = Resolved r \<and> \<not> ok r \<and>
    json r = Inr data \<and> get_prop h ''detail'' data = Inr (JStr d) \<longrightarrow>
      error (final (perform h fetch op s)) = d \<and>
      perform h fetch' op s = perform h fetch op s) \<and>
   length (sent (perform h fetch op s)) \<le> 1"
  by (cases op)
     (auto simp: handler_defs Let_def apiCall_result_def js_or_def
           split: prod.splits sum.splits if_splits)

theorem error_message_from_detail_witness:
  "sent (perform example_host (fetch_replying not_found_response) StudentLookup example_state)
     = [example_details_request] \<and>
   fetch_replying not_found_response example_details_request = Resolved not_found_response \<and>
   \<not> ok not_found_response \<and>
   json not_found_response = Inr (JObj [(''detail'', JStr ''Student not found'')]) \<and>
   get_prop example_host ''detail'' (JObj [(''detail'', JStr ''Student not found'')])
     = Inr (JStr ''Student not found'') \<and>
   error (final (perform example_host (fetch_replying not_found_response) StudentLookup
                   example_state)) = ''Student not found'' \<and>
   sent (perform example_host (fetch_replying response_without_detail) Login example_state)
     = [example_login_request] \<and>
   get_prop example_host ''detail'' (JObj [(''message'', JStr ''Internal Server Error'')])
     = Inr JUndefined \<and>
   \<not> truthy JUndefined \<and>
   error (final (perform example_host (fetch_replying response_without_detail) Login
                   example_state)) = ''Login failed'' \<and>
   sent (perform example_host fetch_offline TransactionHistory example_state)
     = [example_history_request] \<and>
   fetch_offline example_history_request = Rejected ''Failed to fetch'' \<and>
   fetch_replying failed_to_fetch_response example_history_request
     = Resolved failed_to_fetch_response \<and>
   error (final (perform example_host fetch_offline TransactionHistory example_state))
     = ''Failed to fetch'' \<and>
   perform example_host (fetch_replying failed_to_fetch_response) TransactionHistory
       example_state
     = perform example_host fetch_offline TransactionHistory example_state"
proof -
  have a: "sent (fetchStudentDetails example_host f example_state)
             = [example_details_request]" for f
    by (simp add: fetchStudentDetails_def apiCall_def Let_def example_defs split: prod.splits)
  have b: "sent (handleLogin example_host f example_state) = [example_login_request]" for f
    by (simp add: handleLogin_def Let_def example_defs)
  have c: "sent (fetchTransactionHistory example_host f example_state)
             = [example_history_request]" for f
    by (simp add: fetchTransactionHistory_def apiCall_def Let_def example_defs
          split: prod.splits)
  have r: "\<not> ok not_found_response"
    "json not_found_response = Inr (JObj [(''detail'', JStr ''Student not found'')])"
    "\<not> ok response_without_detail"
    "json response_without_detail = Inr (JObj [(''message'', JStr ''Internal Server Error'')])"
    "\<not> ok failed_to_fetch_response"
    "json failed_to_fetch_response = Inr (JObj [(''detail'', JStr ''Failed to fetch'')])"
    by (simp_all add: not_found_response_def response_without_detail_def
          failed_to_fetch_response_def ok_def)
  from error_message_from_detail
         [of example_host "fetch_replying not_found_response" StudentLookup example_state
             example_details_request not_found_response
             "JObj [(''detail'', JStr ''Student not found'')]" "''Student not found''"]
       error_message_from_detail
         [of example_host "fetch_replying response_without_detail" Login example_state
             example_login_request response_without_detail
             "JObj [(''message'', JStr ''Internal Server Error'')]" _ JUndefined]
       error_message_from_detail
         [of example_host fetch_offline TransactionHistory example_state
             example_history_request failed_to_fetch_response
             "JObj [(''detail'', JStr ''Failed to fetch'')]" "''Failed to fetch''" _
             "fetch_replying failed_to_fetch_response"]
  show ?thesis
    by (simp add: a b c r fetch_replying_def fetch_offline_def)
qed

text \<open>
  C5, as the specification states it: requests to \<^verbatim>\<open>/signup\<close> carry no
  Authorization header. It fails: \<^verbatim>\<open>createUser\<close> sends its request through
  \<^verbatim>\<open>apiCall\<close>, which adds the header whenever a token is held.
\<close>

theorem signup_unauthenticated_counterexample:
  "truthy (token example_state) \<and>
   sent (createUser example_host fetch_offline example_state) = [example_signup_request] \<and>
   url example_signup_request = ''http://localhost:8000/signup'' \<and>
   map_of (headers example_signup_request) ''Authorization'' = Some ''Bearer tok-1''"
  by (simp add: createUser_def apiCall_def Let_def example_defs split: prod.splits)

text \<open>
  C5, amended. Every request other than the login request goes through \<^verbatim>\<open>apiCall\<close>,
  the request to \<^verbatim>\<open>/signup\<close> included: it carries the header
  \<^verbatim>\<open>Authorization: Bearer <token>\<close> when a token is held (the token is truthy) and no
  Authorization header otherwise. The request to \<^verbatim>\<open>/login\<close> never carries one.
\<close>

theorem authorization_on_all_but_login:
  "(op \<noteq> Login \<and> sent (perform h fetch op s) = [req] \<longrightarrow>
      map_of (headers req) ''Authorization'' =
        (if truthy (token s) then Some (''Bearer '' @ toString h (token s)) else None)) \<and>
   (sent (perform h fetch Login s) = [req'] \<longrightarrow>
      map_of (headers req') ''Authorization'' = None)"
  by (cases op)
     (auto simp: handler_defs Let_def apiCall_request_def login_request_def
           split: prod.splits if_splits)

theorem authorization_on_all_but_login_witness:
  "UserCreation \<noteq> Login \<and>
   sent (perform example_host fetch_offline UserCreation example_state)
     = [example_signup_request] \<and>
   truthy (token example_state) \<and>
   map_of (headers example_signup_request) ''Authorization'' = Some ''Bearer tok-1'' \<and>
   sent (perform example_host fetch_offline Login example_state) = [example_login_request] \<and>
   map_of (headers example_login_request) ''Authorization'' = None"
proof -
  have a: "sent (createUser example_host fetch_offline example_state)
             = [example_signup_request]"
    by (simp add: createUser_def apiCall_def Let_def example_defs split: prod.splits)
  have b: "sent (handleLogin example_host fetch_offline example_state)
             = [example_login_request]"
    by (simp add: handleLogin_def Let_def example_defs)
  have c: "token example_state = JStr ''tok-1''"
    by (simp add: example_state_def)
  from authorization_on_all_but_login
         [of UserCreation example_host fetch_offline example_state example_signup_request
             example_login_request]
  show ?thesis
    by (simp add: a b c)
qed

section \<open>Properties that involve the finance service\<close>

lemma find_unique:
  "distinct (map f xs) \<Longrightarrow> x \<in> set xs \<Longrightarrow> find (\<lambda>y. f y = f x) xs = Some x"
  by (induction xs) (auto simp: image_iff)

lemma foldr_max_ge: "x \<in> set xs \<Longrightarrow> x \<le> foldr max xs (0::nat)"
  by (induction xs) auto

lemma next_transaction_id_fresh:
  "t \<in> set ts \<Longrightarrow> tx_transaction_id t < next_transaction_id ts"
  by (simp add: next_transaction_id_def foldr_max_ge less_Suc_eq_le)

lemma paid_nonneg:
  "list_all (\<lambda>t. 0 \<le> tx_amount t) ts \<Longrightarrow> 0 \<le> sum_list (map tx_amount (filter P ts))"
  by (induction ts) auto

lemmas service_example_defs =
  example_service_def example_student_def example_summary_def example_payload_def
  example_transaction_def example_verify_def example_issue_def payment_methods_def

text \<open>
  C7. The service answers the lookup of an id that no student has with a not-found
  error. On the client, the student record is set to null before the request is sent,
  and whenever the lookup fails (a rejected \<^verbatim>\<open>fetch\<close>, a body that is not JSON, a
  non-2xx response) it is still null afterwards, so no student card is rendered; a
  non-2xx response with a detail leaves that detail as the error and no record.
\<close>

theorem failed_lookup_shows_no_student:
  "(sid \<notin> set (map st_student_id (students b)) \<longrightarrow>
      get_student_details b sid = Inl NotFound) \<and>
   (sent (fetchStudentDetails h fetch s) = [req] \<longrightarrow>
      (\<exists>s1. awaiting (fetchStudentDetails h fetch s) = Some s1 \<and>
            studentDetails s1 = JNull)) \<and>
   (sent (fetchStudentDetails h fetch s) = [req] \<and> \<not> succeeded (fetch req) \<longrightarrow>
      studentDetails (final (fetchStudentDetails h fetch s)) = JNull \<and>
      \<not> student_card_shown (final (fetchStudentDetails h fetch s))) \<and>
   (sent (fetchStudentDetails h fetch s) = [req] \<and> fetch req = Resolved r \<and>
    error_response r d \<longrightarrow>
      studentDetails (final (fetchStudentDetails h fetch s)) = JNull \<and>
      error (final (fetchStudentDetails h fetch s)) = d)"
proof -
  have service: "sid \<notin> set (map st_student_id (students b)) \<longrightarrow>
      get_student_details b sid = Inl NotFound"
    by (auto simp: get_student_details_def find_Some_iff split: option.splits)
  have cleared: "sent (fetchStudentDetails h fetch s) = [req] \<longrightarrow>
      (\<exists>s1. awaiting (fetchStudentDetails h fetch s) = Some s1 \<and>
            studentDetails s1 = JNull)"
    by (auto simp: fetchStudentDetails_def apiCall_def Let_def split: prod.splits if_splits)
  have failed: "sent (fetchStudentDetails h fetch s) = [req] \<and> \<not> succeeded (fetch req) \<longrightarrow>
      studentDetails (final (fetchStudentDetails h fetch s)) = JNull \<and>
      \<not> student_card_shown (final (fetchStudentDetails h fetch s))"
    by (auto simp: fetchStudentDetails_def apiCall_def Let_def succeeded_def
          apiCall_result_def student_card_shown_def
          split: prod.splits if_splits sum.splits fetch_result.splits)
  have reported: "sent (fetchStudentDetails h fetch s) = [req] \<and> fetch req = Resolved r \<and>
    error_response r d \<longrightarrow>
      studentDetails (final (fetchStudentDetails h fetch s)) = JNull \<and>
      error (final (fetchStudentDetails h fetch s)) = d"
    by (auto simp: fetchStudentDetails_def apiCall_def Let_def error_response_def
          apiCall_result_def js_or_def
          split: prod.splits if_splits sum.splits jsval.splits)
  from service cleared failed reported show ?thesis by blast
qed

theorem failed_lookup_shows_no_student_witness:
  "7 \<notin> set (map st_student_id (students example_service)) \<and>
   get_student_details example_service 7 = Inl NotFound \<and>
   sent (fetchStudentDetails example_host (fetch_replying not_found_response)
           (example_state\<lparr>studentSearchId := ''7''\<rparr>))
     = [example_details_request\<lparr>url := ''http://localhost:8000/students/7/details''\<rparr>] \<and>
   \<not> succeeded (fetch_replying not_found_response
                  (example_details_request
                     \<lparr>url := ''http://localhost:8000/students/7/details''\<rparr>)) \<and>
   error_response not_found_response ''Student not found'' \<and>
   awaiting (fetchStudentDetails example_host (fetch_replying not_found_response)
               (example_state\<lparr>studentSearchId := ''7''\<rparr>))
     = Some (example_state\<lparr>studentSearchId := ''7'', loading := True\<rparr>) \<and>
   studentDetails (final (fetchStudentDetails example_host
                            (fetch_replying not_found_response)
                            (example_state\<lparr>studentSearchId := ''7''\<rparr>))) = JNull \<and>
   \<not> student_card_shown (final (fetchStudentDetails example_host
                                  (fetch_replying not_found_response)
                                  (example_state\<lparr>studentSearchId := ''7''\<rparr>))) \<and>
   error (final (fetchStudentDetails example_host (fetch_replying not_found_response)
                   (example_state\<lparr>studentSearchId := ''7''\<rparr>))) = ''Student not found''"
proof -
  have a: "sent (fetchStudentDetails example_host f (example_state\<lparr>studentSearchId := ''7''\<rparr>))
             = [example_details_request\<lparr>url := ''http://localhost:8000/students/7/details''\<rparr>]"
    for f
    by (simp add: fetchStudentDetails_def apiCall_def Let_def example_defs split: prod.splits)
  have b: "awaiting (fetchStudentDetails example_host f
                       (example_state\<lparr>studentSearchId := ''7''\<rparr>))
             = Some (example_state\<lparr>studentSearchId := ''7'', loading := True\<rparr>)" for f
    by (simp add: fetchStudentDetails_def apiCall_def Let_def example_state_def
          split: prod.splits)
  have c: "\<not> succeeded (Resolved not_found_response)"
    by (simp add: succeeded_def not_found_response_def ok_def)
  have d: "error_response not_found_response ''Student not found''"
    by (simp add: error_response_def not_found_response_def ok_def)
  have e: "7 \<notin> st_student_id ` set (students example_service)"
    by (simp add: service_example_defs)
  have g: "studentDetails example_state = JNull" "error example_state = []"
    by (simp_all add: example_state_def)
  from failed_lookup_shows_no_student
         [of 7 example_service example_host "fetch_replying not_found_response"
             "example_state\<lparr>studentSearchId := ''7''\<rparr>"
             "example_details_request\<lparr>url := ''http://localhost:8000/students/7/details''\<rparr>"
             not_found_response "''Student not found''"]
  show ?thesis
    by (simp add: a b c d e g fetch_replying_def)
qed

text \<open>
  C4. Login posts the username and the password as form fields, with no header of its
  own. The service returns a token for correct credentials and an authentication error,
  hence no token, for incorrect ones. When the response carries the token, the client
  keeps it as \<^verbatim>\<open>token\<close>, stores it in \<^verbatim>\<open>localStorage\<close>, and stores beside it a user
  object whose only field is the username. When the response is an error response, the
  token and \<^verbatim>\<open>localStorage\<close> are as before and the error detail is shown.
\<close>

theorem login_stores_token:
  "sent (handleLogin h fetch s) =
     [\<lparr>url = ''http://localhost:8000/login'', http_method = Some ''POST'', headers = [],
       req_body = Some (FormData [(''username'', login_username (loginData s)),
                                  (''password'', login_password (loginData s))])\<rparr>] \<and>
   (distinct (map u_username (users b)) \<and> u \<in> set (users b) \<and>
    verify pw (u_password_hash u) \<longrightarrow>
      login verify issue b (u_username u) pw = Inr (issue (u_username u))) \<and>
   ((\<forall>u \<in> set (users b). u_username u = name \<longrightarrow> \<not> verify pw (u_password_hash u)) \<longrightarrow>
      login verify issue b name pw = Inl AuthenticationFailure) \<and>
   (sent (handleLogin h fetch s) = [req] \<and> fetch req = Resolved r \<and>
    success_response r (token_json t) \<longrightarrow>
      token (final (handleLogin h fetch s)) = JStr t \<and>
      localStorage (final (handleLogin h fetch s)) ''token'' = Some (Plain t) \<and>
      localStorage (final (handleLogin h fetch s)) ''user'' =
        Some (Json (JObj [(''username'', JStr (login_username (loginData s)))])) \<and>
      user (final (handleLogin h fetch s)) =
        JObj [(''username'', JStr (login_username (loginData s)))]) \<and>
   (sent (handleLogin h fetch s) = [req] \<and> fetch req = Resolved r \<and>
    error_response r d \<longrightarrow>
      token (final (handleLogin h fetch s)) = token s \<and>
      localStorage (final (handleLogin h fetch s)) = localStorage s \<and>
      error (final (handleLogin h fetch s)) = d \<and> d \<noteq> [])"
proof -
  have request: "sent (handleLogin h fetch s) =
     [\<lparr>url = ''http://localhost:8000/login'', http_method = Some ''POST'', headers = [],
       req_body = Some (FormData [(''username'', login_username (loginData s)),
                                  (''password'', login_password (loginData s))])\<rparr>]"
    by (simp add: handleLogin_def login_request_def API_BASE_URL_def Let_def)
  have correct: "distinct (map u_username (users b)) \<and> u \<in> set (users b) \<and>
    verify pw (u_password_hash u) \<longrightarrow>
      login verify issue b (u_username u) pw = Inr (issue (u_username u))"
    by (simp add: login_def find_unique)
  have incorrect:
    "(\<forall>u \<in> set (users b). u_username u = name \<longrightarrow> \<not> verify pw (u_password_hash u)) \<longrightarrow>
      login verify issue b name pw = Inl AuthenticationFailure"
    by (auto simp: login_def find_Some_iff split: option.splits)
  have stored: "sent (handleLogin h fetch s) = [req] \<and> fetch req = Resolved r \<and>
    success_response r (token_json t) \<longrightarrow>
      token (final (handleLogin h fetch s)) = JStr t \<and>
      localStorage (final (handleLogin h fetch s)) ''token'' = Some (Plain t) \<and>
      localStorage (final (handleLogin h fetch s)) ''user'' =
        Some (Json (JObj [(''username'', JStr (login_username (loginData s)))])) \<and>
      user (final (handleLogin h fetch s)) =
        JObj [(''username'', JStr (login_username (loginData s)))]"
    by (auto simp: handleLogin_def Let_def success_response_def token_json_def)
  have refused: "sent (handleLogin h fetch s) = [req] \<and> fetch req = Resolved r \<and>
    error_response r d \<longrightarrow>
      token (final (handleLogin h fetch s)) = token s \<and>
      localStorage (final (handleLogin h fetch s)) = localStorage s \<and>
      error (final (handleLogin h fetch s)) = d \<and> d \<noteq> []"
    by (auto simp: handleLogin_def Let_def error_response_def js_or_def
          split: sum.splits jsval.splits)
  from request correct incorrect stored refused show ?thesis by blast
qed

theorem login_stores_token_witness:
  "distinct (map u_username (users example_service)) \<and>
   \<lparr>u_username = ''asha'', u_password_hash = ''h:s3cret'', u_full_name = ''Asha Rao'',
     u_role = Admin\<rparr> \<in> set (users example_service) \<and>
   example_verify ''s3cret'' ''h:s3cret'' \<and>
   login example_verify example_issue example_service ''asha'' ''s3cret'' = Inr ''tok-asha'' \<and>
   \<not> example_verify ''guess'' ''h:s3cret'' \<and>
   login example_verify example_issue example_service ''asha'' ''guess''
     = Inl AuthenticationFailure \<and>
   sent (handleLogin example_host (fetch_replying token_response) logged_out_state)
     = [example_login_request] \<and>
   success_response token_response (token_json ''tok-asha'') \<and>
   token (final (handleLogin example_host (fetch_replying token_response) logged_out_state))
     = JStr ''tok-asha'' \<and>
   localStorage (final (handleLogin example_host (fetch_replying token_response)
                          logged_out_state)) ''token'' = Some (Plain ''tok-asha'') \<and>
   localStorage (final (handleLogin example_host (fetch_replying token_response)
                          logged_out_state)) ''user''
     = Some (Json (JObj [(''username'', JStr ''asha'')])) \<and>
   sent (handleLogin example_host (fetch_replying unauthorized_response) logged_out_state)
     = [example_login_request] \<and>
   error_response unauthorized_response ''Incorrect username or password'' \<and>
   token (final (handleLogin example_host (fetch_replying unauthorized_response)
                   logged_out_state)) = JNull \<and>
   localStorage (final (handleLogin example_host (fetch_replying unauthorized_response)
                          logged_out_state)) = Map.empty \<and>
   error (final (handleLogin example_host (fetch_replying unauthorized_response)
                   logged_out_state)) = ''Incorrect username or password''"
proof -
  have a: "sent (handleLogin example_host f logged_out_state) = [example_login_request]" for f
    by (simp add: handleLogin_def Let_def logged_out_state_def example_defs)
  have b: "success_response token_response (token_json ''tok-asha'')"
    by (simp add: success_response_def token_response_def token_json_def ok_def)
  have c: "error_response unauthorized_response ''Incorrect username or password''"
    by (simp add: error_response_def unauthorized_response_def ok_def)
  have d: "distinct (map u_username (users example_service))"
    "\<lparr>u_username = ''asha'', u_password_hash = ''h:s3cret'', u_full_name = ''Asha Rao'',
      u_role = Admin\<rparr> \<in> set (users example_service)"
    "example_verify ''s3cret'' ''h:s3cret''"
    "\<not> example_verify ''guess'' ''h:s3cret''"
    "\<forall>u \<in> set (users example_service).
       u_username u = ''asha'' \<longrightarrow> \<not> example_verify ''guess'' (u_password_hash u)"
    by (simp_all add: service_example_defs)
  have e: "token logged_out_state = JNull" "localStorage logged_out_state = Map.empty"
    "login_username (loginData logged_out_state) = ''asha''"
    by (simp_all add: logged_out_state_def example_state_def)
  from login_stores_token
         [of example_host "fetch_replying token_response" logged_out_state example_service
             "\<lparr>u_username = ''asha'', u_password_hash = ''h:s3cret'',
               u_full_name = ''Asha Rao'', u_role = Admin\<rparr>"
             example_verify "''s3cret''" example_issue "''asha''"
             example_login_request token_response "''tok-asha''"]
       login_stores_token
         [of example_host "fetch_replying unauthorized_response" logged_out_state
             example_service _ example_verify "''guess''" example_issue "''asha''"
             example_login_request unauthorized_response _
             "''Incorrect username or password''"]
  show ?thesis
    by (simp add: a b c d e fetch_replying_def example_issue_def)
qed

text \<open>
  C1. Every fee summary that the service returns for a student and an academic year has
  pending fees equal to total fees due minus total amount paid; for well-formed data both
  totals are non-negative. The client asks for the summary of the student and year
  entered, keeps the returned summary as it is, and the fee summary tab renders its three
  amounts unchanged, so the pending amount on the page is that exact difference. (On
  another tab, or without a token, the page renders no summary card.)
\<close>

theorem fee_summary_pending_is_difference:
  "get_fee_summary b sid yid = Inr f \<Longrightarrow>
     pending_fees f = total_fees_due f - total_amount_paid f \<and>
     (well_formed b \<longrightarrow> 0 \<le> total_fees_due f \<and> 0 \<le> total_amount_paid f) \<and>
     (summaryStudentId s \<noteq> [] \<and> summaryYearId s \<noteq> [] \<longrightarrow>
        (\<exists>q. sent (fetchFeeSummary h fetch s) = [q] \<and>
             url q = ''http://localhost:8000/students/'' @ summaryStudentId s
                       @ ''/fee-summary/'' @ summaryYearId s)) \<and>
     (sent (fetchFeeSummary h fetch s) = [req] \<and> fetch req = Resolved r \<and>
      success_response r (fee_summary_json f) \<longrightarrow>
        feeSummary (final (fetchFeeSummary h fetch s)) = fee_summary_json f \<and>
        shown_amounts h (final (fetchFeeSummary h fetch s)) =
          (if truthy (token s) \<and> activeTab s = ''fee-summary''
           then Some (JNum (Finite (total_fees_due f)),
                      JNum (Finite (total_amount_paid f)),
                      JNum (Finite (total_fees_due f - total_amount_paid f)))
           else None))"
proof -
  assume "get_fee_summary b sid yid = Inr f"
  then obtain st y sch where
    "find (\<lambda>st. st_student_id st = sid) (students b) = Some st" and
    "find (\<lambda>y. ay_year_id y = yid) (years b) = Some y" and
    sch: "find (\<lambda>f. fs_student_id f = sid \<and> fs_year_id f = yid) (schedules b) = Some sch" and
    f: "f = \<lparr>student_details = st, academic_year = ay_label y,
             total_fees_due = fs_fees_due sch,
             total_amount_paid = sum_list (map tx_amount
               (filter (\<lambda>t. tx_student_id t = Some sid \<and> tx_year_id t = Some yid)
                  (transactions b))),
             pending_fees = fs_fees_due sch - sum_list (map tx_amount
               (filter (\<lambda>t. tx_student_id t = Some sid \<and> tx_year_id t = Some yid)
                  (transactions b)))\<rparr>"
    by (auto simp: get_fee_summary_def Let_def split: option.splits)
  have difference: "pending_fees f = total_fees_due f - total_amount_paid f"
    by (simp add: f)
  have "sch \<in> set (schedules b)"
    using sch by (auto simp: find_Some_iff)
  then have nonneg: "well_formed b \<longrightarrow> 0 \<le> total_fees_due f \<and> 0 \<le> total_amount_paid f"
    by (auto simp: f well_formed_def list_all_iff intro: paid_nonneg)
  have asked: "summaryStudentId s \<noteq> [] \<and> summaryYearId s \<noteq> [] \<longrightarrow>
        (\<exists>q. sent (fetchFeeSummary h fetch s) = [q] \<and>
             url q = ''http://localhost:8000/students/'' @ summaryStudentId s
                       @ ''/fee-summary/'' @ summaryYearId s)"
    by (simp add: fetchFeeSummary_def apiCall_def Let_def apiCall_request_def
          API_BASE_URL_def split: prod.splits)
  have shown: "sent (fetchFeeSummary h fetch s) = [req] \<and> fetch req = Resolved r \<and>
      success_response r (fee_summary_json f) \<longrightarrow>
        feeSummary (final (fetchFeeSummary h fetch s)) = fee_summary_json f \<and>
        shown_amounts h (final (fetchFeeSummary h fetch s)) =
          (if truthy (token s) \<and> activeTab s = ''fee-summary''
           then Some (JNum (Finite (total_fees_due f)),
                      JNum (Finite (total_amount_paid f)),
                      JNum (Finite (total_fees_due f - total_amount_paid f)))
           else None)"
    by (auto simp: fetchFeeSummary_def apiCall_def Let_def success_response_def
          apiCall_result_def shown_amounts_def tab_shown_def fee_summary_json_def
          student_json_def difference
          split: prod.splits if_splits)
  from difference nonneg asked shown show ?thesis by blast
qed

theorem fee_summary_pending_is_difference_witness:
  "get_fee_summary example_service 42 2024 = Inr example_summary \<and>
   pending_fees example_summary = 900 \<and>
   total_fees_due example_summary - total_amount_paid example_summary = 900 \<and>
   well_formed example_service \<and>
   0 \<le> total_fees_due example_summary \<and> 0 \<le> total_amount_paid example_summary \<and>
   summaryStudentId summary_tab_state \<noteq> [] \<and> summaryYearId summary_tab_state \<noteq> [] \<and>
   sent (fetchFeeSummary example_host (fetch_replying summary_response) summary_tab_state)
     = [example_summary_request] \<and>
   url example_summary_request = ''http://localhost:8000/students/42/fee-summary/2024'' \<and>
   success_response summary_response (fee_summary_json example_summary) \<and>
   truthy (token summary_tab_state) \<and> activeTab summary_tab_state = ''fee-summary'' \<and>
   shown_amounts example_host
     (final (fetchFeeSummary example_host (fetch_replying summary_response)
               summary_tab_state))
     = Some (JNum (Finite 1200), JNum (Finite 300), JNum (Finite 900)) \<and>
   activeTab example_state = ''fee-payment'' \<and>
   shown_amounts example_host
     (final (fetchFeeSummary example_host (fetch_replying summary_response) example_state))
     = None"
proof -
  have a: "get_fee_summary example_service 42 2024 = Inr example_summary"
    by (simp add: get_fee_summary_def service_example_defs)
  have b: "well_formed example_service"
    by (simp add: well_formed_def service_example_defs)
  have c: "sent (fetchFeeSummary example_host f summary_tab_state)
             = [example_summary_request]"
    "sent (fetchFeeSummary example_host f example_state) = [example_summary_request]" for f
    by (simp_all add: fetchFeeSummary_def apiCall_def Let_def summary_tab_state_def
          example_defs split: prod.splits)
  have d: "success_response summary_response (fee_summary_json example_summary)"
    by (simp add: success_response_def summary_response_def ok_def)
  have e: "total_fees_due example_summary = 1200" "total_amount_paid example_summary = 300"
    "pending_fees example_summary = 900"
    by (simp_all add: example_summary_def)
  have g: "summaryStudentId summary_tab_state = ''42''"
    "summaryYearId summary_tab_state = ''2024''"
    "token summary_tab_state = JStr ''tok-1''"
    "activeTab summary_tab_state = ''fee-summary''"
    "token example_state = JStr ''tok-1''"
    "activeTab example_state = ''fee-payment''"
    "url example_summary_request = ''http://localhost:8000/students/42/fee-summary/2024''"
    by (simp_all add: summary_tab_state_def example_state_def example_summary_request_def)
  from fee_summary_pending_is_difference
         [OF a, of summary_tab_state example_host "fetch_replying summary_response"
            example_summary_request summary_response]
       fee_summary_pending_is_difference
         [OF a, of example_state example_host "fetch_replying summary_response"
            example_summary_request summary_response]
  show ?thesis
    by (simp add: a b c d e g fetch_replying_def)
qed

text \<open>
  C2. Recording a fee payment is not idempotent. The client sends the same request for
  the same form values and token: the request has no header besides Content-Type and
  Authorization and no field besides the seven of the form, so nothing tells a
  resubmission from the first submission. The service, given a payload it accepts, accepts
  the same payload again and then holds two transactions that differ in their id only.
\<close>

theorem fee_payment_not_idempotent:
  "(feePayment s' = feePayment s \<and> token s' = token s \<and>
    sent (handleFeePayment h fetch s) = [req] \<and>
    sent (handleFeePayment h fetch' s') = [req'] \<longrightarrow>
      req' = req \<and>
      map fst (headers req) \<in> {[''Content-Type''], [''Content-Type'', ''Authorization'']} \<and>
      (\<exists>kvs. req_body req = Some (Text (Json (JObj kvs))) \<and>
             map fst kvs = [''student_id'', ''amount'', ''transaction_date'',
                            ''payment_method'', ''reference_details'', ''description'',
                            ''year_id''])) \<and>
   (create_fee_payment b name j = Inr (t1, b1) \<longrightarrow>
      (\<exists>t2 b2. create_fee_payment b1 name j = Inr (t2, b2) \<and>
               tx_transaction_id t2 \<noteq> tx_transaction_id t1 \<and>
               t2 = t1\<lparr>tx_transaction_id := tx_transaction_id t2\<rparr> \<and>
               transactions b2 = transactions b @ [t1, t2]))"
proof -
  have client: "feePayment s' = feePayment s \<and> token s' = token s \<and>
    sent (handleFeePayment h fetch s) = [req] \<and>
    sent (handleFeePayment h fetch' s') = [req'] \<longrightarrow>
      req' = req \<and>
      map fst (headers req) \<in> {[''Content-Type''], [''Content-Type'', ''Authorization'']} \<and>
      (\<exists>kvs. req_body req = Some (Text (Json (JObj kvs))) \<and>
             map fst kvs = [''student_id'', ''amount'', ''transaction_date'',
                            ''payment_method'', ''reference_details'', ''description'',
                            ''year_id''])"
    by (auto simp: handleFeePayment_def apiCall_def Let_def apiCall_request_def
          feePayment_body_def feePayment_props_def split: prod.splits)
  have service: "create_fee_payment b name j = Inr (t1, b1) \<longrightarrow>
      (\<exists>t2 b2. create_fee_payment b1 name j = Inr (t2, b2) \<and>
               tx_transaction_id t2 \<noteq> tx_transaction_id t1 \<and>
               t2 = t1\<lparr>tx_transaction_id := tx_transaction_id t2\<rparr> \<and>
               transactions b2 = transactions b @ [t1, t2])"
  proof
    assume first: "create_fee_payment b name j = Inr (t1, b1)"
    then obtain p where p: "decode_payment j = Some p"
      by (auto simp: create_fee_payment_def split: option.splits)
    from first p have b1: "b1 = b\<lparr>transactions := transactions b @ [t1]\<rparr>"
      by (auto simp: create_fee_payment_def Let_def)
    have "t1 \<in> set (transactions b1)"
      by (simp add: b1)
    then have "tx_transaction_id t1 < next_transaction_id (transactions b1)"
      by (rule next_transaction_id_fresh)
    with first p b1
    show "\<exists>t2 b2. create_fee_payment b1 name j = Inr (t2, b2) \<and>
               tx_transaction_id t2 \<noteq> tx_transaction_id t1 \<and>
               t2 = t1\<lparr>tx_transaction_id := tx_transaction_id t2\<rparr> \<and>
               transactions b2 = transactions b @ [t1, t2]"
      by (auto simp: create_fee_payment_def Let_def)
  qed
  from client service show ?thesis by blast
qed

theorem fee_payment_not_idempotent_witness:
  "sent (handleFeePayment example_host fetch_offline example_state) = [example_fee_request] \<and>
   sent (handleFeePayment example_host (fetch_replying created_response) example_state)
     = [example_fee_request] \<and>
   map fst (headers example_fee_request) = [''Content-Type'', ''Authorization''] \<and>
   req_body example_fee_request = Some (Text (Json example_payload)) \<and>
   create_fee_payment example_service ''asha'' example_payload
     = Inr (example_transaction 2,
            example_service\<lparr>transactions :=
              transactions example_service @ [example_transaction 2]\<rparr>) \<and>
   create_fee_payment
       (example_service\<lparr>transactions :=
          transactions example_service @ [example_transaction 2]\<rparr>)
       ''asha'' example_payload
     = Inr (example_transaction 3,
            example_service\<lparr>transactions :=
              transactions example_service @ [example_transaction 2, example_transaction 3]\<rparr>)"
proof -
  have a: "sent (handleFeePayment example_host f example_state) = [example_fee_request]" for f
    by (simp add: handleFeePayment_def apiCall_def Let_def example_defs split: prod.splits)
  have b: "create_fee_payment example_service ''asha'' example_payload
     = Inr (example_transaction 2,
            example_service\<lparr>transactions :=
              transactions example_service @ [example_transaction 2]\<rparr>)"
    by (simp add: create_fee_payment_def decode_payment_def next_transaction_id_def
          service_example_defs Let_def numeral_2_eq_2 numeral_3_eq_3)
  have c: "create_fee_payment
       (example_service\<lparr>transactions :=
          transactions example_service @ [example_transaction 2]\<rparr>)
       ''asha'' example_payload
     = Inr (example_transaction 3,
            example_service\<lparr>transactions :=
              transactions example_service @ [example_transaction 2, example_transaction 3]\<rparr>)"
    by (simp add: create_fee_payment_def decode_payment_def next_transaction_id_def
          service_example_defs Let_def numeral_2_eq_2 numeral_3_eq_3)
  have d: "map fst (headers example_fee_request) = [''Content-Type'', ''Authorization'']"
    "req_body example_fee_request = Some (Text (Json example_payload))"
    by (simp_all add: example_fee_request_def example_payload_def)
  from fee_payment_not_idempotent
         [of example_state example_state example_host fetch_offline example_fee_request
             "fetch_replying created_response" example_fee_request
             example_service "''asha''" example_payload "example_transaction 2"
             "example_service\<lparr>transactions :=
                transactions example_service @ [example_transaction 2]\<rparr>"]
  show ?thesis
    by (simp add: a b c d)
qed

text \<open>
  C3. The body of the fee payment request is the form with three fields replaced:
  \<^verbatim>\<open>amount\<close> by \<^verbatim>\<open>parseFloat\<close> of the entered amount, \<^verbatim>\<open>student_id\<close> and
  \<^verbatim>\<open>year_id\<close> by \<^verbatim>\<open>parseInt\<close> of the entered ids; the other fields go out as entered.
  When the coercions give a decimal and two integers, that is what the service reads from
  the body. A submission that the service accepts adds exactly one transaction to the
  stored ones: a new one, of type Fee Payment, recorded by the authenticated user; nothing
  else in the service's data changes.
\<close>

theorem fee_payment_coerced_and_recorded_once:
  "(sent (handleFeePayment h fetch s) = [req] \<longrightarrow>
      url req = ''http://localhost:8000/transactions/fee-payment'' \<and>
      http_method req = Some ''POST'' \<and>
      req_body req = Some (Text (Json (JObj
        [(''student_id'', JNum (parseInt h (fp_student_id (feePayment s)))),
         (''amount'', JNum (parseFloat h (fp_amount (feePayment s)))),
         (''transaction_date'', JStr (fp_transaction_date (feePayment s))),
         (''payment_method'', JStr (fp_payment_method (feePayment s))),
         (''reference_details'', JStr (fp_reference_details (feePayment s))),
         (''description'', JStr (fp_description (feePayment s))),
         (''year_id'', JNum (parseInt h (fp_year_id (feePayment s))))])))) \<and>
   (parseInt h (fp_student_id fp) = Finite (of_int sid) \<and>
    parseFloat h (fp_amount fp) = Finite amt \<and>
    parseInt h (fp_year_id fp) = Finite (of_int yid) \<and>
    fp_payment_method fp \<in> set payment_methods \<longrightarrow>
      decode_payment (parsed (feePayment_body h fp)) =
        Some \<lparr>p_student_id = sid, p_amount = amt,
              p_transaction_date = fp_transaction_date fp,
              p_payment_method = fp_payment_method fp, p_year_id = yid,
              p_reference_details = Some (fp_reference_details fp),
              p_description = Some (fp_description fp)\<rparr>) \<and>
   (create_fee_payment b name j = Inr (t, b') \<longrightarrow>
      transactions b' = transactions b @ [t] \<and>
      t \<notin> set (transactions b) \<and>
      tx_type t = Fee_Payment \<and> tx_recorded_by t = name \<and>
      users b' = users b \<and> students b' = students b \<and> years b' = years b \<and>
      schedules b' = schedules b)"
proof -
  have body: "sent (handleFeePayment h fetch s) = [req] \<longrightarrow>
      url req = ''http://localhost:8000/transactions/fee-payment'' \<and>
      http_method req = Some ''POST'' \<and>
      req_body req = Some (Text (Json (JObj
        [(''student_id'', JNum (parseInt h (fp_student_id (feePayment s)))),
         (''amount'', JNum (parseFloat h (fp_amount (feePayment s)))),
         (''transaction_date'', JStr (fp_transaction_date (feePayment s))),
         (''payment_method'', JStr (fp_payment_method (feePayment s))),
         (''reference_details'', JStr (fp_reference_details (feePayment s))),
         (''description'', JStr (fp_description (feePayment s))),
         (''year_id'', JNum (parseInt h (fp_year_id (feePayment s))))])))"
    by (auto simp: handleFeePayment_def apiCall_def Let_def apiCall_request_def
          feePayment_body_def feePayment_props_def API_BASE_URL_def split: prod.splits)
  have decoded: "parseInt h (fp_student_id fp) = Finite (of_int sid) \<and>
    parseFloat h (fp_amount fp) = Finite amt \<and>
    parseInt h (fp_year_id fp) = Finite (of_int yid) \<and>
    fp_payment_method fp \<in> set payment_methods \<longrightarrow>
      decode_payment (parsed (feePayment_body h fp)) =
        Some \<lparr>p_student_id = sid, p_amount = amt,
              p_transaction_date = fp_transaction_date fp,
              p_payment_method = fp_payment_method fp, p_year_id = yid,
              p_reference_details = Some (fp_reference_details fp),
              p_description = Some (fp_description fp)\<rparr>"
    by (simp add: feePayment_body_def feePayment_props_def decode_payment_def)
  have recorded: "create_fee_payment b name j = Inr (t, b') \<longrightarrow>
      transactions b' = transactions b @ [t] \<and>
      t \<notin> set (transactions b) \<and>
      tx_type t = Fee_Payment \<and> tx_recorded_by t = name \<and>
      users b' = users b \<and> students b' = students b \<and> years b' = years b \<and>
      schedules b' = schedules b"
  proof
    assume c: "create_fee_payment b name j = Inr (t, b')"
    then have id: "tx_transaction_id t = next_transaction_id (transactions b)"
      by (auto simp: create_fee_payment_def Let_def split: option.splits)
    have "t \<notin> set (transactions b)"
      using next_transaction_id_fresh [of t "transactions b"] id by auto
    with c show "transactions b' = transactions b @ [t] \<and>
      t \<notin> set (transactions b) \<and>
      tx_type t = Fee_Payment \<and> tx_recorded_by t = name \<and>
      users b' = users b \<and> students b' = students b \<and> years b' = years b \<and>
      schedules b' = schedules b"
      by (auto simp: create_fee_payment_def Let_def split: option.splits)
  qed
  from body decoded recorded show ?thesis by blast
qed

theorem fee_payment_coerced_and_recorded_once_witness:
  "sent (handleFeePayment example_host (fetch_replying created_response) example_state)
     = [example_fee_request] \<and>
   req_body example_fee_request = Some (Text (Json example_payload)) \<and>
   parseInt example_host (fp_student_id (feePayment example_state)) = Finite (of_int 42) \<and>
   parseFloat example_host (fp_amount (feePayment example_state)) = Finite 500 \<and>
   parseInt example_host (fp_year_id (feePayment example_state)) = Finite (of_int 2024) \<and>
   fp_payment_method (feePayment example_state) \<in> set payment_methods \<and>
   decode_payment (parsed (feePayment_body example_host (feePayment example_state))) =
     Some \<lparr>p_student_id = 42, p_amount = 500, p_transaction_date = ''2026-11-01'',
           p_payment_method = ''Online'', p_year_id = 2024,
           p_reference_details = Some ''UPI 7731'', p_description = Some ''Term 2''\<rparr> \<and>
   create_fee_payment example_service ''asha''
       (parsed (feePayment_body example_host (feePayment example_state)))
     = Inr (example_transaction 2,
            example_service\<lparr>transactions :=
              transactions example_service @ [example_transaction 2]\<rparr>) \<and>
   example_transaction 2 \<notin> set (transactions example_service) \<and>
   tx_type (example_transaction 2) = Fee_Payment \<and>
   tx_recorded_by (example_transaction 2) = ''asha''"
proof -
  have a: "sent (handleFeePayment example_host f example_state) = [example_fee_request]" for f
    by (simp add: handleFeePayment_def apiCall_def Let_def example_defs split: prod.splits)
  have b: "parsed (feePayment_body example_host (feePayment example_state)) = example_payload"
    by (simp add: feePayment_body_def feePayment_props_def example_host_def
          example_state_def example_payload_def)
  have c: "create_fee_payment example_service ''asha'' example_payload
     = Inr (example_transaction 2,
            example_service\<lparr>transactions :=
              transactions example_service @ [example_transaction 2]\<rparr>)"
    by (simp add: create_fee_payment_def decode_payment_def next_transaction_id_def
          service_example_defs Let_def numeral_2_eq_2 numeral_3_eq_3)
  have d: "parseInt example_host (fp_student_id (feePayment example_state)) = Finite 42"
    "parseFloat example_host (fp_amount (feePayment example_state)) = Finite 500"
    "parseInt example_host (fp_year_id (feePayment example_state)) = Finite 2024"
    "fp_payment_method (feePayment example_state) = ''Online''"
    "fp_transaction_date (feePayment example_state) = ''2026-11-01''"
    "fp_reference_details (feePayment example_state) = ''UPI 7731''"
    "fp_description (feePayment example_state) = ''Term 2''"
    by (simp_all add: example_host_def example_state_def)
  have e: "req_body example_fee_request = Some (Text (Json example_payload))"
    by (simp add: example_fee_request_def example_payload_def)
  have g: "''Online'' \<in> set payment_methods"
    by (simp add: payment_methods_def)
  from fee_payment_coerced_and_recorded_once
         [of example_host "fetch_replying created_response" example_state
             example_fee_request "feePayment example_state" 42 500 2024
             example_service "''asha''" example_payload "example_transaction 2"
             "example_service\<lparr>transactions :=
                transactions example_service @ [example_transaction 2]\<rparr>"]
  show ?thesis
    by (simp add: a b c d e g)
qed

end
